theory Spec2Isabelle
  imports Main "HOL-Library.AList"
begin

section \<open>JavaScript values\<close>

text \<open>
  The handler of \<^verbatim>\<open>src/lambdas/pushDynatraceDeploymentEvent/index.js\<close> works on
  untyped JSON data: the Lambda event, the parsed \<^verbatim>\<open>UserParameters\<close>, the job
  details. A value is one of JavaScript's primitives, an array or a plain object. An
  object is an association list in insertion order with distinct keys; an array carries
  its elements and, since an array is an object too, the named properties assigned to it.
  A number is an integer that JavaScript prints in plain digits, one of magnitude below
  \<^verbatim>\<open>1e21\<close> (the code only tests numbers for truthiness, compares them with string
  literals and concatenates them to strings; a fraction or a larger number differs from
  such an integer only in the digits of its string form).
\<close>

datatype js =
    JUndefined
  | JNull
  | JBool bool
  | JNum int
  | JStr string
  | JArr "js list" "(string \<times> js) list"
  | JObj "(string \<times> js) list"

datatype exn = TypeError | SyntaxError

text \<open>\<^verbatim>\<open>if (v)\<close>, \<^verbatim>\<open>!v\<close>, \<^verbatim>\<open>a || b\<close>, \<^verbatim>\<open>c ? a : b\<close>: every object and array is truthy,
  also an empty one.\<close>

fun truthy :: "js \<Rightarrow> bool" where
  "truthy JUndefined = False"
| "truthy JNull = False"
| "truthy (JBool b) = b"
| "truthy (JNum i) = (i \<noteq> 0)"
| "truthy (JStr s) = (s \<noteq> [])"
| "truthy (JArr xs ps) = True"
| "truthy (JObj ps) = True"

fun is_nullish :: "js \<Rightarrow> bool" where
  "is_nullish JUndefined = True"
| "is_nullish JNull = True"
| "is_nullish v = False"

subsection \<open>Conversion to a string\<close>

fun digits10 :: "nat \<Rightarrow> string" where
  "digits10 n =
     (if n < 10 then [''0123456789'' ! n]
      else digits10 (n div 10) @ [''0123456789'' ! (n mod 10)])"

declare digits10.simps [simp del]

definition number_to_string :: "int \<Rightarrow> string" where
  "number_to_string i =
     (if i < 0 then CHR ''-'' # digits10 (nat (- i)) else digits10 (nat i))"

fun join :: "string \<Rightarrow> string list \<Rightarrow> string" where
  "join sep [] = []"
| "join sep [s] = s"
| "join sep (s # t # ss) = s @ sep @ join sep (t # ss)"

text \<open>A step that may throw, followed by another: the first exception ends both.\<close>

definition and_then :: "exn + 'a \<Rightarrow> ('a \<Rightarrow> exn + 'b) \<Rightarrow> exn + 'b" where
  "and_then r f = (case r of Inl e \<Rightarrow> Inl e | Inr v \<Rightarrow> f v)"

fun all_strings :: "(exn + string) list \<Rightarrow> exn + string list" where
  "all_strings [] = Inr []"
| "all_strings (Inl e # rs) = Inl e"
| "all_strings (Inr s # rs) =
     (case all_strings rs of Inl e \<Rightarrow> Inl e | Inr ss \<Rightarrow> Inr (s # ss))"

text \<open>An own property of an object, whatever its value.\<close>

definition has_key :: "(string \<times> js) list \<Rightarrow> string \<Rightarrow> bool" where
  "has_key ps k = (map_of ps k \<noteq> None)"

text \<open>
  What \<^verbatim>\<open>"text" + v\<close> appends for \<open>v\<close>, and what \<^verbatim>\<open>v == "text"\<close> compares for an object
  \<open>v\<close>. A plain object is \<^verbatim>\<open>[object Object]\<close> by the \<^verbatim>\<open>toString\<close> it inherits. An own
  property \<^verbatim>\<open>toString\<close> hides the inherited one, and no value of these data is a
  function: the conversion then finds no method that gives a primitive (the inherited
  \<^verbatim>\<open>valueOf\<close> gives the object back, an own one is no function either) and throws a
  \<open>TypeError\<close>. An array is its elements joined by commas, \<^verbatim>\<open>null\<close> and \<^verbatim>\<open>undefined\<close>
  elements as the empty string and the first element that cannot be converted ending
  the conversion; an array with an own \<^verbatim>\<open>join\<close> is \<^verbatim>\<open>[object Array]\<close>.
\<close>

fun js_to_string :: "js \<Rightarrow> exn + string" where
  "js_to_string JUndefined = Inr ''undefined''"
| "js_to_string JNull = Inr ''null''"
| "js_to_string (JBool b) = Inr (if b then ''true'' else ''false'')"
| "js_to_string (JNum i) = Inr (number_to_string i)"
| "js_to_string (JStr s) = Inr s"
| "js_to_string (JArr xs ps) =
     (if has_key ps ''toString'' then Inl TypeError
      else if has_key ps ''join'' then Inr ''[object Array]''
      else (case all_strings
                   (map (\<lambda>x. case x of JUndefined \<Rightarrow> Inr [] | JNull \<Rightarrow> Inr []
                                  | _ \<Rightarrow> js_to_string x) xs) of
              Inl e \<Rightarrow> Inl e
            | Inr ss \<Rightarrow> Inr (join '','' ss)))"
| "js_to_string (JObj ps) =
     (if has_key ps ''toString'' then Inl TypeError else Inr ''[object Object]'')"

text \<open>\<^verbatim>\<open>v == "LITERAL"\<close> for a literal that is not the text of a number (the two
  event type names): a string compares by content, an array or object by its string
  form, and throws when it has none; everything else is different.\<close>

fun loose_eq_str :: "js \<Rightarrow> string \<Rightarrow> exn + bool" where
  "loose_eq_str (JStr t) s = Inr (t = s)"
| "loose_eq_str (JArr xs ps) s = and_then (js_to_string (JArr xs ps)) (\<lambda>t. Inr (t = s))"
| "loose_eq_str (JObj ps) s = and_then (js_to_string (JObj ps)) (\<lambda>t. Inr (t = s))"
| "loose_eq_str v s = Inr False"

subsection \<open>Properties\<close>

fun lookup :: "(string \<times> js) list \<Rightarrow> string \<Rightarrow> js" where
  "lookup ps k = (case map_of ps k of None \<Rightarrow> JUndefined | Some v \<Rightarrow> v)"

text \<open>\<^verbatim>\<open>v.k\<close> for a \<open>v\<close> that is neither \<^verbatim>\<open>null\<close> nor \<^verbatim>\<open>undefined\<close> and a key that
  no prototype defines (all keys the handler reads by name are such): a primitive has
  no such property.\<close>

fun get_prop :: "js \<Rightarrow> string \<Rightarrow> js" where
  "get_prop (JObj ps) k = lookup ps k"
| "get_prop (JArr xs ps) k = lookup ps k"
| "get_prop v k = JUndefined"

text \<open>\<^verbatim>\<open>v.k\<close> in general: reading a property of \<^verbatim>\<open>null\<close> or \<^verbatim>\<open>undefined\<close> throws.\<close>

definition js_get :: "js \<Rightarrow> string \<Rightarrow> exn + js" where
  "js_get v k = (if is_nullish v then Inl TypeError else Inr (get_prop v k))"

text \<open>\<^verbatim>\<open>v.k = x\<close> for a \<open>v\<close> that is neither \<^verbatim>\<open>null\<close> nor \<^verbatim>\<open>undefined\<close>: an existing key
  keeps its place, a new key is appended; the file is not in strict mode, so the
  assignment to a property of a primitive is silently dropped.\<close>

fun set_prop :: "js \<Rightarrow> string \<Rightarrow> js \<Rightarrow> js" where
  "set_prop (JObj ps) k x = JObj (AList.update k x ps)"
| "set_prop (JArr xs ps) k x = JArr xs (AList.update k x ps)"
| "set_prop v k x = v"

text \<open>\<^verbatim>\<open>v[0]\<close> for a truthy \<open>v\<close>.\<close>

fun index0 :: "js \<Rightarrow> js" where
  "index0 (JArr xs ps) = (case xs of [] \<Rightarrow> JUndefined | x # rest \<Rightarrow> x)"
| "index0 (JStr s) = (case s of [] \<Rightarrow> JUndefined | c # rest \<Rightarrow> JStr [c])"
| "index0 (JObj ps) = lookup ps ''0''"
| "index0 v = JUndefined"

subsection \<open>String and array methods\<close>

definition starts_with :: "string \<Rightarrow> string \<Rightarrow> bool" where
  "starts_with p s = (take (length p) s = p)"

text \<open>\<^verbatim>\<open>v.startsWith(p)\<close>: only a string has the method.\<close>

fun js_startsWith :: "js \<Rightarrow> string \<Rightarrow> exn + bool" where
  "js_startsWith (JStr s) p = Inr (starts_with p s)"
| "js_startsWith v p = Inl TypeError"

text \<open>\<^verbatim>\<open>s.split(",")\<close>: the empty string splits into one empty segment.\<close>

fun split_on :: "char \<Rightarrow> string \<Rightarrow> string list" where
  "split_on c [] = [[]]"
| "split_on c (x # xs) =
     (if x = c then [] # split_on c xs
      else (case split_on c xs of [] \<Rightarrow> [[x]] | s # ss \<Rightarrow> (x # s) # ss))"

text \<open>\<^verbatim>\<open>segments[i]\<close>: reading past the end of an array gives \<^verbatim>\<open>undefined\<close>.\<close>

definition segment :: "string list \<Rightarrow> nat \<Rightarrow> js" where
  "segment segs i = (if i < length segs then JStr (segs ! i) else JUndefined)"

fun str_includes :: "string \<Rightarrow> string \<Rightarrow> bool" where
  "str_includes [] p = (p = [])"
| "str_includes (x # xs) p = (starts_with p (x # xs) \<or> str_includes xs p)"

text \<open>\<^verbatim>\<open>v.includes("text")\<close>: substring search on a string, membership on an array,
  no method on anything else. A key \<open>includes\<close> of the value's own hides the method of
  the prototype, and no value of the model is a function.\<close>

fun js_includes :: "js \<Rightarrow> string \<Rightarrow> exn + bool" where
  "js_includes (JStr s) p = Inr (str_includes s p)"
| "js_includes (JArr xs ps) p =
     (if has_key ps ''includes'' then Inl TypeError else Inr (List.member xs (JStr p)))"
| "js_includes v p = Inl TypeError"

text \<open>\<^verbatim>\<open>a.concat(b)\<close>: a new array with the elements of an array argument spread, any
  other argument appended as one element; on a string, string concatenation. A key
  \<open>concat\<close> of the array's own hides the method.\<close>

fun js_concat :: "js \<Rightarrow> js \<Rightarrow> exn + js" where
  "js_concat (JArr xs ps) b =
     (if has_key ps ''concat'' then Inl TypeError
      else Inr (JArr (xs @ (case b of JArr ys qs \<Rightarrow> ys | _ \<Rightarrow> [b])) []))"
| "js_concat (JStr s) b = and_then (js_to_string b) (\<lambda>t. Inr (JStr (s @ t)))"
| "js_concat v b = Inl TypeError"

section \<open>Collaborators and effects\<close>

text \<open>
  The modules \<^verbatim>\<open>codepipelineutils\<close>, \<^verbatim>\<open>dtapiutils\<close> and \<^verbatim>\<open>monspec\<close> and the runtime's
  \<^verbatim>\<open>JSON\<close> and \<^verbatim>\<open>Date\<close> are parameters of the model: what each returns, or passes to
  its callback, in this invocation. \<open>getJobDetails\<close> and \<open>downloadFile\<close> give the pair
  \<open>(err, result)\<close> of their callback, \<open>dtApiPost\<close> the pair \<open>(statuscode, response)\<close>, a
  number and the raw body text. \<open>JSON_parse\<close> throws a \<open>SyntaxError\<close> on text that is not
  JSON. \<open>Date_now\<close> holds the two successive clock readings of \<open>postToApi\<close>.

  The \<open>err\<close> of a callback is \<^verbatim>\<open>null\<close> (\<open>None\<close>) or the error of the failed call: an
  \<^verbatim>\<open>Error\<close> object (as the AWS client passes) or a message text. The handler tests it
  for truthiness, appends it to a string and passes it on; a \<open>failure\<close> is such an
  error, given by the text that appending it to a string yields.
\<close>

datatype failure = Failure string

fun failure_text :: "failure \<Rightarrow> string" where
  "failure_text (Failure text) = text"

record env =
  dtApiInit :: "failure option"
  getDtApiToken :: js
  getDtTenantUrl :: js
  getJobDetails :: "js \<Rightarrow> failure option \<times> js"
  downloadFile :: "js \<Rightarrow> js \<Rightarrow> js \<Rightarrow> failure option \<times> js"
  getAllTagRules :: "js \<Rightarrow> js \<Rightarrow> js"
  dtApiPost :: "string \<Rightarrow> js \<Rightarrow> js \<Rightarrow> int \<times> string"
  JSON_parse :: "string \<Rightarrow> exn + js"
  JSON_stringify :: "js \<Rightarrow> string"
  Date_now :: "int \<times> int"

text \<open>The Lambda context object, with its \<^verbatim>\<open>fail\<close> and \<^verbatim>\<open>succeed\<close> callbacks. A
  parameter \<^verbatim>\<open>context\<close> that the caller did not pass is \<open>None\<close>.\<close>

datatype lambda_context = LambdaContext

text \<open>What is reported: a value (a message text is \<open>Val (JStr text)\<close>), a caught
  exception object, or the error of a collaborator.\<close>

datatype message = Val js | Exc exn | Failed failure

text \<open>
  The calls that leave the handler, in the order they are made. \<open>console.log\<close> output
  is not recorded. An invocation is its list of effects and, when a callback ended in
  an exception that nothing catches, that exception.
\<close>

datatype effect =
    GetJobDetails js
  | DownloadFile js js js
  | ApiPost string js js
  | PutJobFailure message js "lambda_context option"
  | PutJobSuccess message js "lambda_context option"
  | ContextFail message
  | ContextSucceed message
  | Callback message

type_synonym run = "effect list \<times> exn option"

definition after :: "effect \<Rightarrow> run \<Rightarrow> run" where
  "after e r = (e # fst r, snd r)"

text \<open>A function called from a callback: an exception it throws is caught by nobody.\<close>

definition uncaught :: "exn + run \<Rightarrow> run" where
  "uncaught r = (case r of Inl e \<Rightarrow> ([], Some e) | Inr done \<Rightarrow> done)"

definition returned :: "exn + effect list \<Rightarrow> exn + run" where
  "returned r = (case r of Inl e \<Rightarrow> Inl e | Inr effs \<Rightarrow> Inr (effs, None))"

section \<open>Reporting\<close>

text \<open>
  \<^verbatim>\<open>reportError(message, codePipelineJobId, context)\<close>, lines 20 to 24. Without a job
  id the failure goes to \<^verbatim>\<open>context.fail\<close>; when \<^verbatim>\<open>context\<close> was not passed, reading
  \<^verbatim>\<open>context.fail\<close> throws a \<open>TypeError\<close>. \<^verbatim>\<open>putJobFailure\<close> receives the context as it
  is, also a missing one.
\<close>

definition reportError :: "message \<Rightarrow> js \<Rightarrow> lambda_context option \<Rightarrow> exn + effect list" where
  "reportError message codePipelineJobId context =
     (if truthy codePipelineJobId then Inr [PutJobFailure message codePipelineJobId context]
      else (case context of
              None \<Rightarrow> Inl TypeError
            | Some c \<Rightarrow> Inr [ContextFail message]))"

definition reportSuccess :: "message \<Rightarrow> js \<Rightarrow> lambda_context option \<Rightarrow> exn + effect list" where
  "reportSuccess message codePipelineJobId context =
     (if truthy codePipelineJobId then Inr [PutJobSuccess message codePipelineJobId context]
      else (case context of
              None \<Rightarrow> Inl TypeError
            | Some c \<Rightarrow> Inr [ContextSucceed message]))"

section \<open>Submission: postToApi\<close>

text \<open>Lines 174 and 175: the token and the tenant URL of the record, else the
  process-wide ones.\<close>

definition global_defaults :: "env \<Rightarrow> js \<Rightarrow> js" where
  "global_defaults env postedData =
     (let token = get_prop postedData ''dtApiToken'';
          pd = set_prop postedData ''dtApiToken''
                 (if truthy token then token else getDtApiToken env);
          url = get_prop pd ''dtTenantURL''
      in set_prop pd ''dtTenantURL'' (if truthy url then url else getDtTenantUrl env))"

definition properties :: "string list" where
  "properties = [''deploymentName'', ''deploymentVersion'', ''deploymentProject'',
     ''annotationType'', ''annotationDescription'', ''source'', ''customProperties'']"

definition copy_property :: "js \<Rightarrow> js \<Rightarrow> string \<Rightarrow> js" where
  "copy_property postedData event propName =
     (if truthy (get_prop postedData propName)
      then set_prop event propName (get_prop postedData propName) else event)"

text \<open>Lines 191 to 204: the wire payload.\<close>

definition build_event :: "env \<Rightarrow> js \<Rightarrow> js" where
  "build_event env postedData =
     foldl (copy_property postedData)
       (JObj [(''start'', JStr (number_to_string (fst (Date_now env)))),
              (''end'', JStr (number_to_string (snd (Date_now env)))),
              (''source'', if truthy (get_prop postedData ''source'')
                           then get_prop postedData ''source''
                           else JStr ''Dynatrace AWS Lambda''),
              (''eventType'', get_prop postedData ''eventType''),
              (''attachRules'', get_prop postedData ''attachRules'')])
       properties"

definition no_match_message :: "env \<Rightarrow> js \<Rightarrow> string" where
  "no_match_message env postedData =
     ''Failed to push Dynatrace Deployment Event!'' @ [CHR 0x0A] @
     ''NO Entities found that match your Tags: + '' @
     JSON_stringify env (get_prop postedData ''attachRules'') @ [CHR 0x0A, CHR 0x0A] @
     ''Double check your tag configuration in monspec or in Dynatrace!''"

text \<open>The three outcomes the callback of \<^verbatim>\<open>dtApiPost\<close> reports, lines 213, 223 and
  229; each passes the context.\<close>

definition reported_success :: "js \<Rightarrow> lambda_context \<Rightarrow> run" where
  "reported_success codePipelineJobId context =
     uncaught (returned (reportSuccess
       (Val (JStr ''Successfully sent event to Dynatrace''))
       codePipelineJobId (Some context)))"

definition no_matching_entities :: "env \<Rightarrow> js \<Rightarrow> js \<Rightarrow> lambda_context \<Rightarrow> run" where
  "no_matching_entities env postedData codePipelineJobId context =
     uncaught (returned (reportError
       (Val (JStr (no_match_message env postedData)))
       codePipelineJobId (Some context)))"

definition submission_failed :: "string \<Rightarrow> js \<Rightarrow> lambda_context \<Rightarrow> run" where
  "submission_failed response codePipelineJobId context =
     uncaught (returned (reportError
       (Val (JStr (''Failed to send event to Dynatrace: '' @ response)))
       codePipelineJobId (Some context)))"

text \<open>
  The callback of \<^verbatim>\<open>dtApiPost\<close>, lines 211 to 230. It runs after \<open>postToApi\<close> has
  returned: an exception of \<^verbatim>\<open>JSON.parse\<close> or of \<^verbatim>\<open>.message.includes\<close> is caught by
  nobody and nothing is reported.
\<close>

definition dtApiPost_callback ::
    "env \<Rightarrow> js \<Rightarrow> js \<Rightarrow> lambda_context \<Rightarrow> int \<Rightarrow> string \<Rightarrow> run" where
  "dtApiPost_callback env postedData codePipelineJobId context statuscode response =
     (if statuscode = 200 then reported_success codePipelineJobId context
      else if statuscode = 400 \<and> starts_with ''{'' response
      then (case JSON_parse env response of
              Inl e \<Rightarrow> ([], Some e)
            | Inr responseObject \<Rightarrow>
                (case js_get responseObject ''error'' of
                   Inl e \<Rightarrow> ([], Some e)
                 | Inr err \<Rightarrow>
                     if truthy err
                     then (case js_includes (get_prop err ''message'')
                                  ''No MEIdentifier do match'' of
                             Inl e \<Rightarrow> ([], Some e)
                           | Inr found \<Rightarrow>
                               if found
                               then no_matching_entities env postedData codePipelineJobId context
                               else submission_failed response codePipelineJobId context)
                     else submission_failed response codePipelineJobId context))
      else submission_failed response codePipelineJobId context)"

text \<open>Lines 189 to 211: the record has its mandatory fields; the event is posted and
  the callback classifies the response. Line 190 appends the path to the tenant URL and
  line 208 appends the token to the text it logs; either throws when the value is an
  object without a string form.\<close>

definition submit :: "env \<Rightarrow> js \<Rightarrow> js \<Rightarrow> lambda_context \<Rightarrow> exn + run" where
  "submit env postedData codePipelineJobId context =
     and_then (js_to_string (get_prop postedData ''dtTenantURL'')) (\<lambda>tenant.
       let dtEventUrl = tenant @ ''/api/v1/events'';
           event = build_event env postedData;
           token = get_prop postedData ''dtApiToken''
       in and_then (js_to_string token) (\<lambda>logged.
            (case dtApiPost env dtEventUrl token event of
               (statuscode, response) \<Rightarrow>
                 Inr (after (ApiPost dtEventUrl token event)
                        (dtApiPost_callback env postedData codePipelineJobId context
                           statuscode response)))))"

text \<open>
  \<^verbatim>\<open>postToApi(postedData, codePipelineJobId, context)\<close>, lines 168 to 231. \<open>Inl\<close> is an
  exception thrown before \<open>postToApi\<close> returns, which a caller inside the handler's
  \<^verbatim>\<open>try\<close> catches. The six validation failures call \<^verbatim>\<open>reportError\<close> with two
  arguments: its \<^verbatim>\<open>context\<close> is missing. The comparisons of lines 182 and 185 throw
  when the event type is an object without a string form.
\<close>

definition postToApi :: "env \<Rightarrow> js \<Rightarrow> js \<Rightarrow> lambda_context \<Rightarrow> exn + run" where
  "postToApi env postedData0 codePipelineJobId context =
     (if is_nullish postedData0 then Inl TypeError
      else
        let postedData = global_defaults env postedData0 in
        if \<not> truthy (get_prop postedData ''dtApiToken'')
        then returned (reportError (Val (JStr ''dtApiToken missing'')) codePipelineJobId None)
        else if \<not> truthy (get_prop postedData ''dtTenantURL'')
        then returned (reportError (Val (JStr ''dtTenantURL missing'')) codePipelineJobId None)
        else if \<not> truthy (get_prop postedData ''attachRules'')
        then returned (reportError (Val (JStr ''attachRules missing'')) codePipelineJobId None)
        else if \<not> truthy (get_prop postedData ''eventType'')
        then returned (reportError (Val (JStr ''eventType missing'')) codePipelineJobId None)
        else
          and_then (loose_eq_str (get_prop postedData ''eventType'') ''CUSTOM_ANNOTATION'')
            (\<lambda>annotation.
          if annotation \<and> \<not> truthy (get_prop postedData ''annotationType'')
          then returned (reportError (Val (JStr ''annotationType missing''))
                           codePipelineJobId None)
          else
            and_then (loose_eq_str (get_prop postedData ''eventType'') ''CUSTOM_DEPLOYMENT'')
              (\<lambda>deployment.
            if deployment \<and> \<not> truthy (get_prop postedData ''deploymentName'')
            then returned (reportError (Val (JStr ''deploymentName missing''))
                             codePipelineJobId None)
            else submit env postedData codePipelineJobId context)))"

section \<open>Normalization of a CodePipeline job\<close>

text \<open>
  Lines 64 to 78: the \<^verbatim>\<open>UserParameters\<close> of the action configuration give the partial
  record \<open>postedData\<close> and the variable \<open>monspecurl\<close> (initially \<^verbatim>\<open>null\<close>). The
  comma-separated form first stores the environment name; when the second segment starts
  with \<^verbatim>\<open>http\<close>, line 73 assigns a new empty object to \<open>postedData\<close>.
\<close>

definition parse_user_parameters :: "env \<Rightarrow> js \<Rightarrow> exn + (js \<times> js)" where
  "parse_user_parameters env UserParameters =
     (case UserParameters of
        JStr s \<Rightarrow>
          if starts_with ''{'' s
          then and_then (JSON_parse env s) (\<lambda>postedData. Inr (postedData, JNull))
          else
            let userDataConfigs = split_on CHR '','' s;
                postedData = set_prop (JObj []) ''environmentName'' (segment userDataConfigs 0)
            in if 1 < length userDataConfigs \<and> starts_with ''http'' (userDataConfigs ! 1)
               then Inr (JObj [], segment userDataConfigs 1)
               else Inr (set_prop postedData ''userComment''
                           (if 1 < length userDataConfigs then segment userDataConfigs 1
                            else JStr s),
                         JNull)
      | _ \<Rightarrow> Inl TypeError)"

text \<open>The statement \<^verbatim>\<open>if(!postedData.k) postedData.k = x\<close>.\<close>

definition default_prop :: "string \<Rightarrow> js \<Rightarrow> js \<Rightarrow> js" where
  "default_prop k x postedData =
     (if \<not> truthy (get_prop postedData k) then set_prop postedData k x else postedData)"

text \<open>Line 85.\<close>

definition default_eventType :: "js \<Rightarrow> js \<Rightarrow> js" where
  "default_eventType jobDetails postedData =
     default_prop ''eventType''
       (JStr (if truthy (get_prop jobDetails ''codedeploy'')
              then ''CUSTOM_DEPLOYMENT'' else ''CUSTOM_ANNOTATION''))
       postedData"

text \<open>Line 90: no test of \<open>annotationDescription\<close> itself.\<close>

definition comment_as_description :: "js \<Rightarrow> js" where
  "comment_as_description postedData =
     (if truthy (get_prop postedData ''userComment'')
      then set_prop postedData ''annotationDescription'' (get_prop postedData ''userComment'')
      else postedData)"

text \<open>Lines 89 and 90.\<close>

definition annotation_fields :: "js \<Rightarrow> js \<Rightarrow> js" where
  "annotation_fields jobDetails postedData =
     comment_as_description
       (default_prop ''annotationType'' (get_prop jobDetails ''pipelineName'') postedData)"

text \<open>Lines 88 to 91. The comparison of line 88 throws when the event type is an
  object without a string form.\<close>

definition annotation_defaults :: "js \<Rightarrow> js \<Rightarrow> exn + js" where
  "annotation_defaults jobDetails postedData =
     and_then (loose_eq_str (get_prop postedData ''eventType'') ''CUSTOM_ANNOTATION'')
       (\<lambda>annotation.
          Inr (if annotation then annotation_fields jobDetails postedData else postedData))"

text \<open>Line 93.\<close>

definition default_deploymentName :: "js \<Rightarrow> js \<Rightarrow> js" where
  "default_deploymentName jobDetails postedData =
     default_prop ''deploymentName''
       (if truthy (get_prop postedData ''userComment'')
        then get_prop postedData ''userComment''
        else get_prop jobDetails ''pipelineName'')
       postedData"

text \<open>Line 94.\<close>

definition default_deploymentVersion :: "js \<Rightarrow> js \<Rightarrow> js \<Rightarrow> js" where
  "default_deploymentVersion jobDetails codePipelineJobId postedData =
     default_prop ''deploymentVersion''
       (if truthy (get_prop jobDetails ''codedeploy'')
        then get_prop (get_prop jobDetails ''codedeploy'') ''deploymentId''
        else codePipelineJobId)
       postedData"

text \<open>Lines 93 to 95.\<close>

definition deployment_fields :: "js \<Rightarrow> js \<Rightarrow> js \<Rightarrow> js" where
  "deployment_fields jobDetails codePipelineJobId postedData =
     default_prop ''deploymentProject'' (get_prop jobDetails ''pipelineName'')
       (default_deploymentVersion jobDetails codePipelineJobId
          (default_deploymentName jobDetails postedData))"

text \<open>Lines 92 to 96, with the comparison of line 92.\<close>

definition deployment_defaults :: "js \<Rightarrow> js \<Rightarrow> js \<Rightarrow> exn + js" where
  "deployment_defaults jobDetails codePipelineJobId postedData =
     and_then (loose_eq_str (get_prop postedData ''eventType'') ''CUSTOM_DEPLOYMENT'')
       (\<lambda>deployment.
          Inr (if deployment then deployment_fields jobDetails codePipelineJobId postedData
               else postedData))"

text \<open>Line 99.\<close>

definition default_customProperties :: "js \<Rightarrow> js \<Rightarrow> js" where
  "default_customProperties jobDetails postedData =
     default_prop ''customProperties''
       (JObj [(''PipelineName'', get_prop jobDetails ''pipelineName''),
              (''PipelineStage'', get_prop jobDetails ''stage''),
              (''PipelineAction'', get_prop jobDetails ''action'')])
       postedData"

text \<open>One of the three assignments \<^verbatim>\<open>postedData.customProperties[key] = value\<close> of
  lines 101 to 103. The object that \<open>customProperties\<close> refers to is changed in place;
  here the changed object is stored back.\<close>

definition set_customProperty :: "string \<Rightarrow> js \<Rightarrow> js \<Rightarrow> exn + js" where
  "set_customProperty key v postedData =
     (if is_nullish (get_prop postedData ''customProperties'') then Inl TypeError
      else Inr (set_prop postedData ''customProperties''
                  (set_prop (get_prop postedData ''customProperties'') key v)))"

text \<open>Lines 100 to 104: whenever the job details have \<open>codedeploy\<close>, whoever supplied
  \<open>customProperties\<close>.\<close>

definition codedeploy_properties :: "js \<Rightarrow> js \<Rightarrow> exn + js" where
  "codedeploy_properties jobDetails postedData =
     (let codedeploy = get_prop jobDetails ''codedeploy'' in
      if truthy codedeploy
      then and_then (set_customProperty ''CodeDeploy.DeploymentGroup''
                       (get_prop codedeploy ''deploymentGroup'') postedData) (\<lambda>pd1.
           and_then (set_customProperty ''CodeDeploy.Application''
                       (get_prop codedeploy ''application'') pd1) (\<lambda>pd2.
           set_customProperty ''CodeDeploy.DeploymentId''
                       (get_prop codedeploy ''deploymentId'') pd2))
      else Inr postedData)"

text \<open>Line 107.\<close>

definition default_source :: "js \<Rightarrow> js" where
  "default_source postedData = default_prop ''source'' (JStr ''AWS CodePipeline'') postedData"

text \<open>
  Lines 84 to 107, the first part of the callback of \<^verbatim>\<open>getJobDetails\<close>. Line 85 reads
  a property of \<open>postedData\<close> and line 100 one of \<open>jobDetails\<close>, whatever the record
  holds: when either is \<^verbatim>\<open>null\<close> or \<^verbatim>\<open>undefined\<close> the block ends in a \<open>TypeError\<close>, the
  exception of every other step of the block as well.
\<close>

definition apply_job_defaults :: "js \<Rightarrow> js \<Rightarrow> js \<Rightarrow> exn + js" where
  "apply_job_defaults postedData jobDetails codePipelineJobId =
     (if is_nullish postedData \<or> is_nullish jobDetails then Inl TypeError
      else
        and_then (annotation_defaults jobDetails (default_eventType jobDetails postedData))
          (\<lambda>pd1.
        and_then (deployment_defaults jobDetails codePipelineJobId pd1) (\<lambda>pd2.
        and_then (codedeploy_properties jobDetails (default_customProperties jobDetails pd2))
          (\<lambda>pd3. Inr (default_source pd3)))))"

section \<open>The handler\<close>

text \<open>Lines 113 to 125, the callback of \<^verbatim>\<open>downloadFile\<close>.\<close>

definition downloadFile_callback ::
    "env \<Rightarrow> js \<Rightarrow> js \<Rightarrow> js \<Rightarrow> lambda_context \<Rightarrow> failure option \<Rightarrow> js \<Rightarrow> run" where
  "downloadFile_callback env job postedData codePipelineJobId context err content =
     (case err of
        Some failed \<Rightarrow>
          ([PutJobFailure (Failed failed) (get_prop job ''id'') (Some context)], None)
      | None \<Rightarrow>
        (case and_then (js_to_string content) (JSON_parse env) of
           Inl e \<Rightarrow> ([], Some e)
         | Inr monspecobject \<Rightarrow>
             let tagRules = getAllTagRules env monspecobject
                              (get_prop postedData ''environmentName'');
                 pd = (if \<not> truthy (get_prop postedData ''attachRules'')
                       then set_prop postedData ''attachRules'' (JObj [(''tagRule'', JArr [] [])])
                       else postedData);
                 attachRules = get_prop pd ''attachRules''
             in if is_nullish attachRules then ([], Some TypeError)
                else
                  let rules = (if \<not> truthy (get_prop attachRules ''tagRule'')
                               then set_prop attachRules ''tagRule'' (JArr [] [])
                               else attachRules)
                  in (case js_concat (get_prop rules ''tagRule'') tagRules of
                        Inl e \<Rightarrow> ([], Some e)
                      | Inr tagRule \<Rightarrow>
                          uncaught (postToApi env
                            (set_prop pd ''attachRules'' (set_prop rules ''tagRule'' tagRule))
                            codePipelineJobId context))))"

text \<open>Lines 82 to 129, the callback of \<^verbatim>\<open>getJobDetails\<close>. It runs after the handler's
  \<^verbatim>\<open>try\<close> block is left.\<close>

definition getJobDetails_callback ::
    "env \<Rightarrow> js \<Rightarrow> js \<Rightarrow> js \<Rightarrow> js \<Rightarrow> lambda_context \<Rightarrow> failure option \<Rightarrow> js \<Rightarrow> run"
  where
  "getJobDetails_callback env job postedData0 monspecurl codePipelineJobId context err jobDetails =
     (case err of
        Some failed \<Rightarrow>
          ([Callback (Val (JStr (''Cant retrieve job details from CodePipeline: ''
                                   @ failure_text failed)))], None)
      | None \<Rightarrow>
        (case apply_job_defaults postedData0 jobDetails codePipelineJobId of
           Inl e \<Rightarrow> ([], Some e)
         | Inr postedData \<Rightarrow>
             let inputArtifacts = get_prop (get_prop job ''data'') ''inputArtifacts'' in
             if truthy inputArtifacts \<and> truthy (index0 inputArtifacts)
             then
               (let artifact = index0 inputArtifacts;
                    credentials = get_prop (get_prop job ''data'') ''artifactCredentials''
                in case downloadFile env artifact credentials monspecurl of
                     (err2, content) \<Rightarrow>
                       after (DownloadFile artifact credentials monspecurl)
                         (downloadFile_callback env job postedData codePipelineJobId context
                            err2 content))
             else uncaught (postToApi env postedData codePipelineJobId context)))"

text \<open>Lines 55 to 81, inside the \<^verbatim>\<open>try\<close>: \<open>Inl\<close> is an exception the \<^verbatim>\<open>catch\<close> of line
  159 receives. Line 57 appends the job id to the text it logs, which throws when the
  id is an object without a string form.\<close>

definition pipeline_job :: "env \<Rightarrow> js \<Rightarrow> lambda_context \<Rightarrow> exn + run" where
  "pipeline_job env job context =
     (let codePipelineJobId = get_prop job ''id'' in
      and_then (js_to_string codePipelineJobId) (\<lambda>logged.
      and_then (js_get (get_prop job ''data'') ''actionConfiguration'') (\<lambda>actionConfiguration.
      and_then (js_get actionConfiguration ''configuration'') (\<lambda>configuration.
      and_then (js_get configuration ''UserParameters'') (\<lambda>UserParameters.
      and_then (parse_user_parameters env UserParameters) (\<lambda>(postedData, monspecurl).
        (case getJobDetails env codePipelineJobId of
           (err, jobDetails) \<Rightarrow>
             Inr (after (GetJobDetails codePipelineJobId)
                    (getJobDetails_callback env job postedData monspecurl codePipelineJobId
                       context err jobDetails)))))))))"

text \<open>Lines 135 to 149: a notification is parsed and dropped.\<close>

definition sns_notification :: "env \<Rightarrow> js \<Rightarrow> exn + unit" where
  "sns_notification env record0 =
     and_then (js_get (get_prop record0 ''Sns'') ''Message'') (\<lambda>Message.
     and_then (js_startsWith Message ''{'') (\<lambda>json.
       if json
       then and_then (and_then (js_to_string Message) (JSON_parse env)) (\<lambda>notificationData.
            and_then (js_get notificationData ''deploymentId'') (\<lambda>deploymentId. Inr ()))
       else Inr ()))"

text \<open>The \<^verbatim>\<open>catch\<close> of lines 159 to 162, with \<open>codePipelineJobId\<close> as it is when the
  exception is thrown.\<close>

definition catch :: "js \<Rightarrow> lambda_context \<Rightarrow> exn \<Rightarrow> run" where
  "catch codePipelineJobId context error =
     uncaught (returned (reportError (Exc error) codePipelineJobId (Some context)))"

text \<open>
  \<^verbatim>\<open>exports.handler\<close>, lines 33 to 166: the callback of \<^verbatim>\<open>dtApiInit\<close>. On an
  initialization error line 38 calls \<^verbatim>\<open>console\<close>, which is not a function.
\<close>

definition handler :: "env \<Rightarrow> js \<Rightarrow> lambda_context \<Rightarrow> run" where
  "handler env event context =
     (if dtApiInit env \<noteq> None then ([], Some TypeError)
      else if is_nullish event then catch JNull context TypeError
      else
        let job = get_prop event ''CodePipeline.job'' in
        if truthy job
        then (case pipeline_job env job context of
                Inl e \<Rightarrow> catch (get_prop job ''id'') context e
              | Inr done \<Rightarrow> done)
        else if truthy (get_prop event ''Records'') \<and> truthy (index0 (get_prop event ''Records''))
        then (case sns_notification env (index0 (get_prop event ''Records'')) of
                Inl e \<Rightarrow> catch JNull context e
              | Inr u \<Rightarrow> ([], None))
        else
          (case postToApi env
                  (if truthy (get_prop event ''eventBody'') then get_prop event ''eventBody''
                   else event)
                  JNull context of
             Inl e \<Rightarrow> catch JNull context e
           | Inr done \<Rightarrow> done))"

section \<open>Notions used in the statements\<close>

text \<open>A value that string concatenation and the comparison with a string accept: the
  conversion to a string does not throw.\<close>

definition has_string_form :: "js \<Rightarrow> bool" where
  "has_string_form v = (case js_to_string v of Inl e \<Rightarrow> False | Inr s \<Rightarrow> True)"

text \<open>The event type is the given name, by the comparison \<^verbatim>\<open>==\<close> of the code.\<close>

definition is_event_type :: "js \<Rightarrow> string \<Rightarrow> bool" where
  "is_event_type v name = (loose_eq_str v name = Inr True)"

text \<open>What lines 88 to 91 and lines 92 to 96 make of a record whose event type can be
  compared.\<close>

definition annotation_branch :: "js \<Rightarrow> js \<Rightarrow> js" where
  "annotation_branch jobDetails postedData =
     (if is_event_type (get_prop postedData ''eventType'') ''CUSTOM_ANNOTATION''
      then annotation_fields jobDetails postedData else postedData)"

definition deployment_branch :: "js \<Rightarrow> js \<Rightarrow> js \<Rightarrow> js" where
  "deployment_branch jobDetails codePipelineJobId postedData =
     (if is_event_type (get_prop postedData ''eventType'') ''CUSTOM_DEPLOYMENT''
      then deployment_fields jobDetails codePipelineJobId postedData else postedData)"

text \<open>A value that holds properties: an object or an array.\<close>

fun has_properties :: "js \<Rightarrow> bool" where
  "has_properties (JObj ps) = True"
| "has_properties (JArr xs ps) = True"
| "has_properties v = False"

text \<open>What lines 101 to 103 make of the object \<open>customProperties\<close>.\<close>

definition with_codedeploy :: "js \<Rightarrow> js \<Rightarrow> js" where
  "with_codedeploy codedeploy customProperties =
     set_prop
       (set_prop
          (set_prop customProperties ''CodeDeploy.DeploymentGroup''
             (get_prop codedeploy ''deploymentGroup''))
          ''CodeDeploy.Application'' (get_prop codedeploy ''application''))
       ''CodeDeploy.DeploymentId'' (get_prop codedeploy ''deploymentId'')"

text \<open>The record after line 107 for given \<^verbatim>\<open>UserParameters\<close> and job details, as
  \<open>pipeline_job\<close> and the callback of \<^verbatim>\<open>getJobDetails\<close> compute it.\<close>

definition normalized_record :: "env \<Rightarrow> js \<Rightarrow> js \<Rightarrow> js \<Rightarrow> exn + js" where
  "normalized_record env UserParameters jobDetails codePipelineJobId =
     and_then (parse_user_parameters env UserParameters)
       (\<lambda>(postedData, monspecurl). apply_job_defaults postedData jobDetails codePipelineJobId)"

text \<open>
  The order of validation as the specification words it: the four fields every event
  needs, then the field its event type needs. \<open>first_missing\<close> is the first of them
  that the record, after the global defaults, does not hold.
\<close>

definition mandatory_fields :: "js \<Rightarrow> string list" where
  "mandatory_fields postedData =
     [''dtApiToken'', ''dtTenantURL'', ''attachRules'', ''eventType''] @
     (if is_event_type (get_prop postedData ''eventType'') ''CUSTOM_ANNOTATION''
      then [''annotationType''] else []) @
     (if is_event_type (get_prop postedData ''eventType'') ''CUSTOM_DEPLOYMENT''
      then [''deploymentName''] else [])"

definition first_missing :: "js \<Rightarrow> string option" where
  "first_missing postedData =
     find (\<lambda>field. \<not> truthy (get_prop postedData field)) (mandatory_fields postedData)"

text \<open>The two lookups of the CodePipeline path.\<close>

fun is_lookup :: "effect \<Rightarrow> bool" where
  "is_lookup (GetJobDetails jobId) = True"
| "is_lookup (DownloadFile artifact credentials url) = True"
| "is_lookup e = False"

text \<open>The call of the monitoring API.\<close>

fun is_api_post :: "effect \<Rightarrow> bool" where
  "is_api_post (ApiPost url token event) = True"
| "is_api_post e = False"

section \<open>Example data\<close>

definition example_job_details :: js where
  "example_job_details =
     JObj [(''pipelineName'', JStr ''Checkout''), (''stage'', JStr ''Deploy''),
           (''action'', JStr ''Notify'')]"

definition example_deploy_details :: js where
  "example_deploy_details =
     JObj [(''pipelineName'', JStr ''Checkout''), (''stage'', JStr ''Deploy''),
           (''action'', JStr ''Notify''),
           (''codedeploy'', JObj [(''deploymentId'', JStr ''d-96V3B7QKP''),
                                  (''deploymentGroup'', JStr ''Production''),
                                  (''application'', JStr ''HelloWorld'')])]"

definition quoted :: "string \<Rightarrow> string" where
  "quoted s = CHR 0x22 # s @ [CHR 0x22]"

text \<open>The body the monitoring API sends with status 400 when no entity matches.\<close>

definition no_match_text :: string where
  "no_match_text =
     ''Invalid attachRules object provided. No MEIdentifier do match: Matching rule''"

definition no_match_body :: string where
  "no_match_body = ''{'' @ quoted ''error'' @ '':{'' @ quoted ''code'' @ '':400,'' @
     quoted ''message'' @ '':'' @ quoted no_match_text @ ''}}''"

text \<open>An environment with a configured token and tenant, whose \<open>JSON_parse\<close> knows
  the JSON texts of the examples (\<^verbatim>\<open>JSON.parse\<close> skips white space before the value)
  and rejects the rest.\<close>

definition example_env :: env where
  "example_env =
     \<lparr> dtApiInit = None,
       getDtApiToken = JStr ''token-1'',
       getDtTenantUrl = JStr ''https://tenant.example.com'',
       getJobDetails = (\<lambda>jobId. (None, example_job_details)),
       downloadFile = (\<lambda>artifact credentials url.
          (Some (Failure ''AccessDenied: Access Denied''), JUndefined)),
       getAllTagRules = (\<lambda>monspecobject environmentName. JArr [] []),
       dtApiPost = (\<lambda>url token event. (200, ''{}'')),
       JSON_parse = (\<lambda>text.
          if text = no_match_body \<or> text = '' '' @ no_match_body
          then Inr (JObj [(''error'', JObj [(''code'', JNum 400),
                                            (''message'', JStr no_match_text)])])
          else if text = ''{}'' then Inr (JObj [])
          else Inl SyntaxError),
       JSON_stringify = (\<lambda>v. ''{}''),
       Date_now = (1516349, 1516350) \<rparr>"

definition unconfigured_env :: env where
  "unconfigured_env =
     example_env \<lparr> getDtApiToken := JUndefined, getDtTenantUrl := JUndefined \<rparr>"

definition failing_lookup_env :: env where
  "failing_lookup_env =
     example_env \<lparr> getJobDetails :=
       (\<lambda>jobId. (Some (Failure ''ThrottlingException: Rate exceeded''), JUndefined)) \<rparr>"

definition example_job :: "(string \<times> js) list \<Rightarrow> js" where
  "example_job data_fields =
     JObj [(''CodePipeline.job'',
        JObj [(''id'', JStr ''job-1''),
              (''data'', JObj ((''actionConfiguration'',
                   JObj [(''configuration'',
                      JObj [(''UserParameters'', JStr ''Production,Deployed successfully'')])])
                 # data_fields))])]"

text \<open>A direct call for a deployment event with the given \<open>attachRules\<close>, and the event
  that \<open>postToApi\<close> posts for it in \<open>example_env\<close>.\<close>

definition example_tag_rules :: js where
  "example_tag_rules =
     JObj [(''tagRule'',
        JArr [JObj [(''meTypes'', JArr [JStr ''SERVICE''] []),
                    (''tags'', JArr [JStr ''env:prod''] [])]] [])]"

definition example_deployment :: "js \<Rightarrow> js" where
  "example_deployment attachRules =
     JObj [(''eventType'', JStr ''CUSTOM_DEPLOYMENT''), (''deploymentName'', JStr ''svc-a''),
           (''attachRules'', attachRules)]"

definition example_wire_event :: "js \<Rightarrow> js" where
  "example_wire_event attachRules =
     JObj [(''start'', JStr ''1516349''), (''end'', JStr ''1516350''),
           (''source'', JStr ''Dynatrace AWS Lambda''),
           (''eventType'', JStr ''CUSTOM_DEPLOYMENT''), (''attachRules'', attachRules),
           (''deploymentName'', JStr ''svc-a'')]"

section \<open>Properties of values\<close>

lemma lookup_update:
  "lookup (AList.update k x ps) k' = (if k' = k then x else lookup ps k')"
  by (simp add: update_conv')

lemma get_set_prop:
  "get_prop (set_prop v k x) k' = (if k' = k \<and> has_properties v then x else get_prop v k')"
  by (cases v) (simp_all add: lookup_update del: lookup.simps)

lemma get_set_prop_other: "k' \<noteq> k \<Longrightarrow> get_prop (set_prop v k x) k' = get_prop v k'"
  by (simp add: get_set_prop)

lemma get_set_prop_same: "has_properties v \<Longrightarrow> get_prop (set_prop v k x) k = x"
  by (simp add: get_set_prop)

lemma has_properties_set_prop: "has_properties (set_prop v k x) = has_properties v"
  by (cases v) simp_all

lemma is_nullish_set_prop: "is_nullish (set_prop v k x) = is_nullish v"
  by (cases v) simp_all

lemma truthy_not_nullish: "truthy v \<Longrightarrow> \<not> is_nullish v"
  by (cases v) simp_all

lemma truthy_get_has_properties: "truthy (get_prop v k) \<Longrightarrow> has_properties v"
  by (cases v) simp_all

lemma default_prop_keeps:
  "truthy (get_prop pd k) \<Longrightarrow> get_prop (default_prop f x pd) k = get_prop pd k"
  by (cases "k = f") (simp_all add: default_prop_def get_set_prop_other)

lemma default_prop_other:
  "k \<noteq> f \<Longrightarrow> get_prop (default_prop f x pd) k = get_prop pd k"
  by (simp add: default_prop_def get_set_prop_other)

lemma default_prop_absent:
  "has_properties pd \<Longrightarrow> \<not> truthy (get_prop pd f) \<Longrightarrow> get_prop (default_prop f x pd) f = x"
  by (simp add: default_prop_def get_set_prop_same)

lemma has_properties_default_prop: "has_properties (default_prop f x pd) = has_properties pd"
  by (simp add: default_prop_def has_properties_set_prop)

text \<open>The only exception of a conversion to a string is the \<open>TypeError\<close>.\<close>

lemma all_strings_error:
  "all_strings rs = Inl e \<Longrightarrow> Inl e \<in> set rs"
  by (induction rs rule: all_strings.induct) (auto split: sum.splits)

lemma js_to_string_error: "js_to_string v = Inl e \<Longrightarrow> e = TypeError"
proof (induction v arbitrary: e rule: js_to_string.induct)
  case (6 xs ps)
  show ?case
  proof (cases "has_key ps ''toString''")
    case True
    with "6.prems" show ?thesis by simp
  next
    case no_toString: False
    show ?thesis
    proof (cases "has_key ps ''join''")
      case True
      with no_toString "6.prems" show ?thesis by simp
    next
      case no_join: False
      from "6.prems" no_toString no_join
      have "all_strings (map (\<lambda>x. case x of JUndefined \<Rightarrow> Inr [] | JNull \<Rightarrow> Inr []
                                  | _ \<Rightarrow> js_to_string x) xs) = Inl e"
        by (simp split: sum.splits)
      then obtain x where x: "x \<in> set xs"
        and cx: "(case x of JUndefined \<Rightarrow> Inr [] | JNull \<Rightarrow> Inr [] | _ \<Rightarrow> js_to_string x) = Inl e"
        by (auto dest!: all_strings_error)
      from cx have "js_to_string x = Inl e" by (cases x) simp_all
      with "6.IH" x no_toString no_join show ?thesis by (cases x) auto
    qed
  qed
qed (auto split: if_splits)

lemma js_to_string_cases:
  "js_to_string v = (if has_string_form v then js_to_string v else Inl TypeError)"
  by (cases "js_to_string v") (auto simp: has_string_form_def dest: js_to_string_error)

lemma get_prop_primitive: "\<not> has_properties v \<Longrightarrow> get_prop v k = JUndefined"
  by (cases v) simp_all

lemma loose_eq_str_cases:
  "loose_eq_str v s = (if has_string_form v then Inr (is_event_type v s) else Inl TypeError)"
proof (cases "has_properties v")
  case False
  then show ?thesis
    by (cases v) (simp_all add: is_event_type_def has_string_form_def)
next
  case True
  then have obj: "loose_eq_str v s = and_then (js_to_string v) (\<lambda>t. Inr (t = s))"
    by (cases v) simp_all
  show ?thesis
  proof (cases "js_to_string v")
    case (Inl e)
    then have "js_to_string v = Inl TypeError" by (auto dest: js_to_string_error)
    then show ?thesis by (simp add: obj and_then_def has_string_form_def)
  next
    case (Inr t)
    then show ?thesis by (simp add: obj is_event_type_def and_then_def has_string_form_def)
  qed
qed

lemma is_event_type_has_string_form: "is_event_type v s \<Longrightarrow> has_string_form v"
  using loose_eq_str_cases [of v s] by (auto simp: is_event_type_def split: if_splits)

lemma one_event_type:
  "is_event_type v s \<Longrightarrow> s \<noteq> t \<Longrightarrow> \<not> is_event_type v t"
  by (cases v) (auto simp: is_event_type_def and_then_def split: sum.splits)

lemma primitive_has_string_form: "\<not> has_properties v \<Longrightarrow> has_string_form v"
  by (cases v) (simp_all add: has_string_form_def)

lemma annotation_defaults_cases:
  "annotation_defaults jd pd =
     (if has_string_form (get_prop pd ''eventType'') then Inr (annotation_branch jd pd)
      else Inl TypeError)"
  by (simp add: annotation_defaults_def annotation_branch_def loose_eq_str_cases and_then_def)

lemma deployment_defaults_cases:
  "deployment_defaults jd jid pd =
     (if has_string_form (get_prop pd ''eventType'') then Inr (deployment_branch jd jid pd)
      else Inl TypeError)"
  by (simp add: deployment_defaults_def deployment_branch_def loose_eq_str_cases and_then_def)

lemma default_eventType_keeps:
  "truthy (get_prop pd k) \<Longrightarrow> get_prop (default_eventType jd pd) k = get_prop pd k"
  by (simp add: default_eventType_def default_prop_keeps)

lemma comment_as_description_other:
  "k \<noteq> ''annotationDescription'' \<Longrightarrow> get_prop (comment_as_description pd) k = get_prop pd k"
  by (simp add: comment_as_description_def get_set_prop_other)

lemma annotation_defaults_keeps:
  "truthy (get_prop pd k) \<Longrightarrow> k \<noteq> ''annotationDescription'' \<Longrightarrow>
   get_prop (annotation_branch jd pd) k = get_prop pd k"
  by (simp add: annotation_branch_def annotation_fields_def comment_as_description_other default_prop_keeps)

lemma deployment_defaults_keeps:
  "truthy (get_prop pd k) \<Longrightarrow> get_prop (deployment_branch jd jid pd) k = get_prop pd k"
  by (simp add: deployment_branch_def deployment_fields_def default_deploymentVersion_def
        default_deploymentName_def default_prop_keeps)

lemma default_customProperties_keeps:
  "truthy (get_prop pd k) \<Longrightarrow> get_prop (default_customProperties jd pd) k = get_prop pd k"
  by (simp add: default_customProperties_def default_prop_keeps)

lemma default_source_keeps:
  "truthy (get_prop pd k) \<Longrightarrow> get_prop (default_source pd) k = get_prop pd k"
  by (simp add: default_source_def default_prop_keeps)

lemma set_customProperty_other:
  "set_customProperty key v pd = Inr pd' \<Longrightarrow> k \<noteq> ''customProperties'' \<Longrightarrow>
   get_prop pd' k = get_prop pd k"
  by (auto simp: set_customProperty_def get_set_prop_other split: if_splits)

lemma codedeploy_properties_none:
  "\<not> truthy (get_prop jd ''codedeploy'') \<Longrightarrow> codedeploy_properties jd pd = Inr pd"
  by (simp add: codedeploy_properties_def)

section \<open>The CodeDeploy properties\<close>

lemma set_set_prop: "set_prop (set_prop v k x) k y = set_prop v k y"
  by (cases v) simp_all

lemma set_customProperty_present:
  "\<not> is_nullish (get_prop pd ''customProperties'') \<Longrightarrow>
   set_customProperty key v pd =
     Inr (set_prop pd ''customProperties'' (set_prop (get_prop pd ''customProperties'') key v))"
  by (simp add: set_customProperty_def)

lemma nullish_get_has_properties: "\<not> is_nullish (get_prop v k) \<Longrightarrow> has_properties v"
  by (cases v) simp_all

lemma codedeploy_properties_some:
  assumes cd: "truthy (get_prop jd ''codedeploy'')"
    and cp: "\<not> is_nullish (get_prop pd ''customProperties'')"
  shows "codedeploy_properties jd pd =
     Inr (set_prop pd ''customProperties''
            (with_codedeploy (get_prop jd ''codedeploy'') (get_prop pd ''customProperties'')))"
proof -
  have hp: "has_properties pd" using cp by (rule nullish_get_has_properties)
  have step: "\<And>c key v. \<not> is_nullish c \<Longrightarrow>
      set_customProperty key v (set_prop pd ''customProperties'' c) =
      Inr (set_prop pd ''customProperties'' (set_prop c key v))"
    by (simp add: set_customProperty_def get_set_prop_same hp set_set_prop)
  have first: "set_customProperty ''CodeDeploy.DeploymentGroup''
                 (get_prop (get_prop jd ''codedeploy'') ''deploymentGroup'') pd =
     Inr (set_prop pd ''customProperties''
            (set_prop (get_prop pd ''customProperties'') ''CodeDeploy.DeploymentGroup''
               (get_prop (get_prop jd ''codedeploy'') ''deploymentGroup'')))"
    using cp by (rule set_customProperty_present)
  show ?thesis
    unfolding codedeploy_properties_def Let_def with_codedeploy_def
    using cd cp by (simp add: and_then_def first step is_nullish_set_prop)
qed

lemma defaults_has_properties:
  "has_properties (default_customProperties jd (deployment_branch jd jid
      (annotation_branch jd (default_eventType jd pd)))) = has_properties pd"
  by (simp add: default_customProperties_def deployment_branch_def deployment_fields_def annotation_branch_def annotation_fields_def
        default_eventType_def default_deploymentVersion_def default_deploymentName_def
        comment_as_description_def has_properties_default_prop has_properties_set_prop)

lemma default_customProperties_present:
  "has_properties pd \<Longrightarrow> truthy (get_prop (default_customProperties jd pd) ''customProperties'')"
  by (cases "truthy (get_prop pd ''customProperties'')")
     (simp_all add: default_customProperties_def default_prop_def get_set_prop_same)

lemma has_properties_not_nullish: "has_properties v \<Longrightarrow> \<not> is_nullish v"
  by (cases v) simp_all

lemma eventType_before_codedeploy:
  "get_prop (annotation_branch jd pd) ''eventType'' = get_prop pd ''eventType''"
  "get_prop (deployment_branch jd jid pd) ''eventType'' = get_prop pd ''eventType''"
  by (simp_all add: annotation_branch_def annotation_fields_def deployment_branch_def
        deployment_fields_def default_deploymentVersion_def default_deploymentName_def
        comment_as_description_other default_prop_other)

text \<open>The defaulted event type can be compared exactly when the record's own can.\<close>

lemma default_eventType_string_form:
  "has_string_form (get_prop (default_eventType jd pd) ''eventType'')
     = has_string_form (get_prop pd ''eventType'')"
proof (cases "truthy (get_prop pd ''eventType'')")
  case True
  then show ?thesis by (simp add: default_eventType_keeps)
next
  case False
  then have "\<not> has_properties (get_prop pd ''eventType'')"
    by (cases "get_prop pd ''eventType''") simp_all
  then have own: "has_string_form (get_prop pd ''eventType'')"
    by (rule primitive_has_string_form)
  have "has_string_form (get_prop (default_eventType jd pd) ''eventType'')"
  proof (cases "has_properties pd")
    case True
    with False show ?thesis
      by (simp add: default_eventType_def default_prop_def get_set_prop_same has_string_form_def)
  next
    case False
    then show ?thesis
      by (simp add: default_eventType_def default_prop_def get_set_prop get_prop_primitive
            has_string_form_def)
  qed
  with own show ?thesis by simp
qed

text \<open>
  Normalization as one case distinction: it throws exactly when a record or the job
  details are missing, when the event type cannot be compared, or when lines 101 to 103
  find no \<open>customProperties\<close> to write to.
\<close>

lemma apply_job_defaults_cases:
  assumes "\<not> is_nullish pd" and "\<not> is_nullish jd"
  shows "apply_job_defaults pd jd jid =
     (if has_string_form (get_prop pd ''eventType'')
      then and_then
             (codedeploy_properties jd (default_customProperties jd (deployment_branch jd jid
                (annotation_branch jd (default_eventType jd pd)))))
             (\<lambda>r. Inr (default_source r))
      else Inl TypeError)"
  using assms
  by (simp add: apply_job_defaults_def annotation_defaults_cases deployment_defaults_cases
        eventType_before_codedeploy default_eventType_string_form and_then_def)

text \<open>Normalization of an object with job details at hand completes when the event
  type can be compared.\<close>

lemma apply_job_defaults_returns:
  assumes "has_properties pd" and "\<not> is_nullish jd"
    and "has_string_form (get_prop pd ''eventType'')"
  shows "\<exists>pd'. apply_job_defaults pd jd jid = Inr pd'"
proof -
  define q where "q = default_customProperties jd (deployment_branch jd jid
      (annotation_branch jd (default_eventType jd pd)))"
  have "truthy (get_prop q ''customProperties'')"
    unfolding q_def by (rule default_customProperties_present)
      (simp add: deployment_branch_def deployment_fields_def annotation_branch_def
        annotation_fields_def
        default_eventType_def default_deploymentVersion_def default_deploymentName_def
        comment_as_description_def has_properties_default_prop has_properties_set_prop assms)
  then have cp: "\<not> is_nullish (get_prop q ''customProperties'')" by (rule truthy_not_nullish)
  have "\<exists>r. codedeploy_properties jd q = Inr r"
  proof (cases "truthy (get_prop jd ''codedeploy'')")
    case True
    then show ?thesis using cp by (simp add: codedeploy_properties_some)
  next
    case False
    then show ?thesis by (simp add: codedeploy_properties_none)
  qed
  then show ?thesis
    using assms
    by (auto simp: apply_job_defaults_cases and_then_def q_def has_properties_not_nullish)
qed

lemma apply_job_defaults_throws:
  "\<not> has_string_form (get_prop pd ''eventType'') \<Longrightarrow> apply_job_defaults pd jd jid = Inl TypeError"
  by (cases "is_nullish pd \<or> is_nullish jd")
     (auto simp: apply_job_defaults_cases, simp_all add: apply_job_defaults_def)

section \<open>Validation in postToApi\<close>

lemma is_nullish_global_defaults: "is_nullish (global_defaults env pd) = is_nullish pd"
  by (simp add: global_defaults_def Let_def is_nullish_set_prop)

lemma global_defaults_other:
  "k \<noteq> ''dtApiToken'' \<Longrightarrow> k \<noteq> ''dtTenantURL'' \<Longrightarrow>
   get_prop (global_defaults env pd) k = get_prop pd k"
  by (simp add: global_defaults_def Let_def get_set_prop_other)

lemma first_missing_chain:
  "first_missing q =
     (if \<not> truthy (get_prop q ''dtApiToken'') then Some ''dtApiToken''
      else if \<not> truthy (get_prop q ''dtTenantURL'') then Some ''dtTenantURL''
      else if \<not> truthy (get_prop q ''attachRules'') then Some ''attachRules''
      else if \<not> truthy (get_prop q ''eventType'') then Some ''eventType''
      else if is_event_type (get_prop q ''eventType'') ''CUSTOM_ANNOTATION''
              \<and> \<not> truthy (get_prop q ''annotationType'') then Some ''annotationType''
      else if is_event_type (get_prop q ''eventType'') ''CUSTOM_DEPLOYMENT''
              \<and> \<not> truthy (get_prop q ''deploymentName'') then Some ''deploymentName''
      else None)"
  by (simp add: first_missing_def mandatory_fields_def)

text \<open>
  \<open>postToApi\<close> as one case distinction: the report of the first missing field; else a
  \<open>TypeError\<close> when the event type cannot be compared (lines 182 and 185); else the
  submission.
\<close>

lemma postToApi_cases:
  assumes "\<not> is_nullish pd"
  shows "postToApi env pd jid context =
     (case first_missing (global_defaults env pd) of
        Some field \<Rightarrow> returned (reportError (Val (JStr (field @ '' missing''))) jid None)
      | None \<Rightarrow>
          if has_string_form (get_prop (global_defaults env pd) ''eventType'')
          then submit env (global_defaults env pd) jid context
          else Inl TypeError)"
proof (cases "has_string_form (get_prop (global_defaults env pd) ''eventType'')")
  case True
  with assms show ?thesis
    by (simp add: postToApi_def first_missing_chain Let_def loose_eq_str_cases and_then_def)
next
  case False
  then have "\<not> is_event_type (get_prop (global_defaults env pd) ''eventType'') s" for s
    by (auto dest: is_event_type_has_string_form)
  with assms False show ?thesis
    by (simp add: postToApi_def first_missing_chain Let_def loose_eq_str_cases and_then_def)
qed

lemma postToApi_missing:
  assumes "\<not> is_nullish pd" and "first_missing (global_defaults env pd) = Some field"
  shows "postToApi env pd jid context =
     returned (reportError (Val (JStr (field @ '' missing''))) jid None)"
  using assms by (simp add: postToApi_cases)

lemma postToApi_complete:
  assumes "\<not> is_nullish pd" and "first_missing (global_defaults env pd) = None"
  shows "postToApi env pd jid context =
     (if has_string_form (get_prop (global_defaults env pd) ''eventType'')
      then submit env (global_defaults env pd) jid context else Inl TypeError)"
  using assms by (simp add: postToApi_cases)

lemma submit_Inr:
  assumes "submit env q jid context = Inr r"
  shows "\<exists>tenant statuscode response.
     js_to_string (get_prop q ''dtTenantURL'') = Inr tenant
     \<and> r = after (ApiPost (tenant @ ''/api/v1/events'') (get_prop q ''dtApiToken'')
                    (build_event env q))
              (dtApiPost_callback env q jid context statuscode response)"
  using assms
  by (cases "js_to_string (get_prop q ''dtTenantURL'')";
      cases "js_to_string (get_prop q ''dtApiToken'')")
     (auto simp: submit_def and_then_def Let_def split: prod.splits)

lemma submit_Inl: "submit env q jid context = Inl e \<Longrightarrow> e = TypeError"
  by (cases "js_to_string (get_prop q ''dtTenantURL'')";
      cases "js_to_string (get_prop q ''dtApiToken'')")
     (auto simp: submit_def and_then_def Let_def split: prod.splits dest: js_to_string_error)

lemma first_missing_None_attachRules:
  "first_missing pd = None \<Longrightarrow> truthy (get_prop pd ''attachRules'')"
  by (simp add: first_missing_chain split: if_splits)

section \<open>Which effects a function can have\<close>

lemma reportError_no_lookup:
  "reportError m jid c = Inr effs \<Longrightarrow> filter is_lookup effs = []"
  by (auto simp: reportError_def split: if_splits option.splits)

lemma reportSuccess_no_lookup:
  "reportSuccess m jid c = Inr effs \<Longrightarrow> filter is_lookup effs = []"
  by (auto simp: reportSuccess_def split: if_splits option.splits)

lemma reported_no_lookup:
  "(\<And>effs. r = Inr effs \<Longrightarrow> filter is_lookup effs = []) \<Longrightarrow>
   filter is_lookup (fst (uncaught (returned r))) = []"
  by (cases r) (simp_all add: uncaught_def returned_def)

lemma outcomes_no_lookup:
  "filter is_lookup (fst (reported_success jid ctx)) = []"
  "filter is_lookup (fst (no_matching_entities env pd jid ctx)) = []"
  "filter is_lookup (fst (submission_failed response jid ctx)) = []"
  unfolding reported_success_def no_matching_entities_def submission_failed_def
  by (rule reported_no_lookup, erule reportSuccess_no_lookup reportError_no_lookup)+

lemma dtApiPost_callback_no_lookup:
  "filter is_lookup (fst (dtApiPost_callback env pd jid ctx statuscode response)) = []"
  by (simp add: dtApiPost_callback_def outcomes_no_lookup split: sum.splits)

lemma submit_no_lookup: "filter is_lookup (fst (uncaught (submit env pd jid ctx))) = []"
proof (cases "submit env pd jid ctx")
  case (Inl e)
  then show ?thesis by (simp add: uncaught_def)
next
  case (Inr r)
  from submit_Inr [OF this] show ?thesis
    by (auto simp: Inr uncaught_def after_def dtApiPost_callback_no_lookup)
qed

lemma postToApi_no_lookup: "filter is_lookup (fst (uncaught (postToApi env pd jid ctx))) = []"
proof (cases "is_nullish pd")
  case True
  then show ?thesis by (simp add: postToApi_def uncaught_def)
next
  case False
  show ?thesis
  proof (cases "first_missing (global_defaults env pd)")
    case None
    with False show ?thesis
      using submit_no_lookup [of env "global_defaults env pd" jid ctx]
      by (simp add: postToApi_complete) (simp add: uncaught_def)
  next
    case (Some field)
    with False show ?thesis
      by (simp add: postToApi_missing reported_no_lookup reportError_no_lookup)
  qed
qed

lemma postToApi_Inr_no_lookup:
  "postToApi env pd jid ctx = Inr r \<Longrightarrow> filter is_lookup (fst r) = []"
  using postToApi_no_lookup [of env pd jid ctx] by (simp add: uncaught_def)

lemma catch_no_lookup: "filter is_lookup (fst (catch jid ctx e)) = []"
  unfolding catch_def by (rule reported_no_lookup) (erule reportError_no_lookup)

lemma downloadFile_callback_error:
  "downloadFile_callback env job pd jid ctx (Some failed) content =
     ([PutJobFailure (Failed failed) (get_prop job ''id'') (Some ctx)], None)"
  by (simp add: downloadFile_callback_def)

lemma case_sum_no_lookup:
  "(\<And>v. filter is_lookup (fst (f v)) = []) \<Longrightarrow>
   filter is_lookup (fst (case x of Inl e \<Rightarrow> ([], Some e) | Inr v \<Rightarrow> f v)) = []"
  by (cases x) simp_all

lemma downloadFile_callback_no_lookup:
  "filter is_lookup (fst (downloadFile_callback env job pd jid ctx err content)) = []"
proof (cases err)
  case (Some failed)
  then show ?thesis by (simp add: downloadFile_callback_error)
next
  case None
  have inner: "filter is_lookup (fst
      (if is_nullish ar then ([], Some TypeError)
       else case js_concat a b of Inl e \<Rightarrow> ([], Some e)
            | Inr tagRule \<Rightarrow> uncaught (postToApi env (g tagRule) jid ctx))) = []" for ar a b g
    by (simp add: case_sum_no_lookup postToApi_no_lookup)
  show ?thesis
    unfolding downloadFile_callback_def Let_def
    by (simp only: None option.case) (rule case_sum_no_lookup, rule inner)
qed

lemma getJobDetails_callback_error:
  "getJobDetails_callback env job pd url jid ctx (Some failed) jd =
     ([Callback (Val (JStr (''Cant retrieve job details from CodePipeline: ''
                              @ failure_text failed)))],
      None)"
  by (simp add: getJobDetails_callback_def)

lemma not_lookup_member:
  "filter is_lookup effs = [] \<Longrightarrow> is_lookup e \<Longrightarrow> e \<notin> set effs"
  by (auto simp: filter_empty_conv)

section \<open>The claims on normalization\<close>

lemma codedeploy_properties_absent:
  "truthy (get_prop jd ''codedeploy'') \<Longrightarrow> is_nullish (get_prop pd ''customProperties'') \<Longrightarrow>
   codedeploy_properties jd pd = Inl TypeError"
  by (simp add: codedeploy_properties_def set_customProperty_def and_then_def)

lemma codedeploy_properties_other:
  assumes "codedeploy_properties jd pd = Inr pd'" and "k \<noteq> ''customProperties''"
  shows "get_prop pd' k = get_prop pd k"
proof (cases "truthy (get_prop jd ''codedeploy'')")
  case False
  then show ?thesis using assms by (simp add: codedeploy_properties_none)
next
  case True
  show ?thesis
  proof (cases "is_nullish (get_prop pd ''customProperties'')")
    case True
    with \<open>truthy (get_prop jd ''codedeploy'')\<close> assms show ?thesis
      by (simp add: codedeploy_properties_absent)
  next
    case False
    with \<open>truthy (get_prop jd ''codedeploy'')\<close> assms show ?thesis
      by (auto simp: codedeploy_properties_some get_set_prop_other)
  qed
qed

lemma apply_job_defaults_Inr:
  assumes "apply_job_defaults pd jd jid = Inr pd'"
  shows "\<not> is_nullish pd \<and> \<not> is_nullish jd \<and> has_string_form (get_prop pd ''eventType'') \<and>
    (\<exists>r. codedeploy_properties jd (default_customProperties jd (deployment_branch jd jid
        (annotation_branch jd (default_eventType jd pd)))) = Inr r \<and> pd' = default_source r)"
proof -
  have nn: "\<not> is_nullish pd" "\<not> is_nullish jd"
    using assms by (auto simp: apply_job_defaults_def split: if_splits)
  with assms show ?thesis
    by (auto simp: apply_job_defaults_cases and_then_def split: if_splits sum.splits)
qed

lemma eventType_after_defaults:
  assumes "apply_job_defaults pd jd jid = Inr pd'"
  shows "get_prop pd' ''eventType'' = get_prop (default_eventType jd pd) ''eventType''"
proof -
  from apply_job_defaults_Inr [OF assms] obtain r where
    r: "codedeploy_properties jd (default_customProperties jd (deployment_branch jd jid
        (annotation_branch jd (default_eventType jd pd)))) = Inr r" and pd': "pd' = default_source r"
    by blast
  have "get_prop pd' ''eventType'' = get_prop r ''eventType''"
    by (simp add: pd' default_source_def default_prop_other)
  also have "\<dots> = get_prop (default_customProperties jd (deployment_branch jd jid
        (annotation_branch jd (default_eventType jd pd)))) ''eventType''"
    by (rule codedeploy_properties_other [OF r]) simp
  also have "\<dots> = get_prop (default_eventType jd pd) ''eventType''"
    by (simp add: default_customProperties_def deployment_branch_def deployment_fields_def annotation_branch_def annotation_fields_def
        default_deploymentVersion_def default_deploymentName_def
        comment_as_description_other default_prop_other)
  finally show ?thesis .
qed

text \<open>
  Claim C5, as amended. When the normalization of lines 84 to 107 completes, a field
  among \<open>eventType\<close>, \<open>annotationType\<close>, \<open>deploymentName\<close>, \<open>deploymentVersion\<close>,
  \<open>deploymentProject\<close> and \<open>source\<close> that the parsed record sets (to a truthy value)
  keeps its value. A set \<open>annotationDescription\<close> keeps its value unless the event type
  is \<^verbatim>\<open>CUSTOM_ANNOTATION\<close> and the record has a \<open>userComment\<close>, which then replaces it
  (line 90). A set \<open>customProperties\<close> keeps its value when the job details have no
  \<open>codedeploy\<close>.
\<close>

theorem explicit_fields_kept:
  assumes run: "apply_job_defaults pd jd jid = Inr pd'"
    and set: "truthy (get_prop pd k)"
  shows "(k \<in> set [''eventType'', ''annotationType'', ''deploymentName'', ''deploymentVersion'',
                   ''deploymentProject'', ''source''] \<longrightarrow> get_prop pd' k = get_prop pd k)
    \<and> (k = ''annotationDescription'' \<longrightarrow> get_prop pd' k =
          (if is_event_type (get_prop pd' ''eventType'') ''CUSTOM_ANNOTATION''
              \<and> truthy (get_prop pd ''userComment'')
           then get_prop pd ''userComment'' else get_prop pd k))
    \<and> (k = ''customProperties'' \<and> \<not> truthy (get_prop jd ''codedeploy'') \<longrightarrow>
          get_prop pd' k = get_prop pd k)"
proof -
  define a where "a = default_eventType jd pd"
  define b where "b = annotation_branch jd a"
  define c where "c = deployment_branch jd jid b"
  define d where "d = default_customProperties jd c"
  from apply_job_defaults_Inr [OF run] obtain r where
    r: "codedeploy_properties jd d = Inr r" and pd': "pd' = default_source r"
    unfolding a_def b_def c_def d_def by blast
  have a: "get_prop a k = get_prop pd k"
    unfolding a_def using set by (rule default_eventType_keeps)
  then have ta: "truthy (get_prop a k)" using set by simp
  have et: "get_prop pd' ''eventType'' = get_prop a ''eventType''"
    unfolding a_def by (rule eventType_after_defaults [OF run])
  have uc: "get_prop a ''userComment'' = get_prop pd ''userComment''"
    by (simp add: a_def default_eventType_def default_prop_other)
  have b_other: "k \<noteq> ''annotationDescription'' \<Longrightarrow> get_prop b k = get_prop pd k"
    unfolding b_def using annotation_defaults_keeps [OF ta, of jd] a by simp
  have hp: "has_properties a" using ta by (rule truthy_get_has_properties)
  have b_desc: "get_prop b ''annotationDescription'' =
      (if is_event_type (get_prop a ''eventType'') ''CUSTOM_ANNOTATION''
            \<and> truthy (get_prop a ''userComment'')
       then get_prop a ''userComment'' else get_prop a ''annotationDescription'')"
    by (simp add: b_def annotation_branch_def annotation_fields_def comment_as_description_def default_prop_other
          get_set_prop has_properties_default_prop hp)
  have tail: "get_prop pd' k = get_prop b k"
    if tb: "truthy (get_prop b k)" and nk: "k \<noteq> ''customProperties''"
  proof -
    have "get_prop c k = get_prop b k" unfolding c_def using tb by (rule deployment_defaults_keeps)
    moreover have "get_prop d k = get_prop c k"
      unfolding d_def by (simp add: default_customProperties_def default_prop_other nk)
    moreover have "get_prop r k = get_prop d k" using r nk by (rule codedeploy_properties_other)
    moreover have "get_prop pd' k = get_prop r k"
      unfolding pd' using tb calculation by (simp add: default_source_keeps)
    ultimately show ?thesis by simp
  qed
  have six: "get_prop pd' k = get_prop pd k"
    if "k \<noteq> ''annotationDescription''" and "k \<noteq> ''customProperties''"
    using tail b_other that set by simp
  have desc: "get_prop pd' k =
          (if is_event_type (get_prop pd' ''eventType'') ''CUSTOM_ANNOTATION''
              \<and> truthy (get_prop pd ''userComment'')
           then get_prop pd ''userComment'' else get_prop pd k)"
    if k: "k = ''annotationDescription''"
  proof -
    have "truthy (get_prop b k)" using b_desc set a uc by (simp add: k)
    then have "get_prop pd' k = get_prop b k" by (rule tail) (simp add: k)
    then show ?thesis using b_desc a uc et by (simp add: k)
  qed
  have custom: "get_prop pd' k = get_prop pd k"
    if k: "k = ''customProperties''" and cd: "\<not> truthy (get_prop jd ''codedeploy'')"
  proof -
    have tb: "truthy (get_prop b k)" using b_other set by (simp add: k)
    have "get_prop c k = get_prop b k" unfolding c_def using tb by (rule deployment_defaults_keeps)
    moreover have "get_prop d k = get_prop c k"
      unfolding d_def using tb calculation by (simp add: default_customProperties_keeps)
    moreover have "r = d" using r cd by (simp add: codedeploy_properties_none)
    moreover have "get_prop pd' k = get_prop r k"
      unfolding pd' using tb calculation by (simp add: default_source_keeps)
    ultimately show ?thesis using b_other by (simp add: k)
  qed
  show ?thesis using six desc custom by auto
qed

lemma customProperties_before_codedeploy:
  assumes "truthy (get_prop pd ''customProperties'')"
  shows "get_prop (default_customProperties jd (deployment_branch jd jid
            (annotation_branch jd (default_eventType jd pd)))) ''customProperties''
         = get_prop pd ''customProperties''"
proof -
  have a: "get_prop (default_eventType jd pd) ''customProperties'' = get_prop pd ''customProperties''"
    using assms by (rule default_eventType_keeps)
  have b: "get_prop (annotation_branch jd (default_eventType jd pd)) ''customProperties''
      = get_prop pd ''customProperties''"
    using assms a by (simp add: annotation_defaults_keeps)
  have c: "get_prop (deployment_branch jd jid (annotation_branch jd (default_eventType jd pd)))
      ''customProperties'' = get_prop pd ''customProperties''"
    using assms b by (simp add: deployment_defaults_keeps)
  show ?thesis using assms c by (simp add: default_customProperties_keeps)
qed

text \<open>
  Claim C3, as amended. When the caller supplied \<open>customProperties\<close>, normalization does
  not apply the default of pipeline name, stage and action. It completes unless the
  record's event type is an object or array without a string form, where the comparison
  of line 88 throws. Without \<open>codedeploy\<close> in the job details the supplied value is
  unchanged; with it, the value is the supplied one with the three \<^verbatim>\<open>CodeDeploy.\<close> keys
  written into it (lines 100 to 104 run whoever supplied the mapping).
\<close>

theorem supplied_customProperties:
  assumes cp: "truthy (get_prop pd ''customProperties'')" and jd: "\<not> is_nullish jd"
  shows "if has_string_form (get_prop pd ''eventType'')
     then (\<exists>pd'. apply_job_defaults pd jd jid = Inr pd' \<and>
            get_prop pd' ''customProperties'' =
              (if truthy (get_prop jd ''codedeploy'')
               then with_codedeploy (get_prop jd ''codedeploy'')
                      (get_prop pd ''customProperties'')
               else get_prop pd ''customProperties''))
     else apply_job_defaults pd jd jid = Inl TypeError"
proof (cases "has_string_form (get_prop pd ''eventType'')")
  case False
  then show ?thesis by (simp add: apply_job_defaults_throws)
next
  case form: True
  define d where "d = default_customProperties jd (deployment_branch jd jid
            (annotation_branch jd (default_eventType jd pd)))"
  have hp: "has_properties pd" using cp by (rule truthy_get_has_properties)
  have hd: "has_properties d" unfolding d_def by (simp add: defaults_has_properties hp)
  have dcp: "get_prop d ''customProperties'' = get_prop pd ''customProperties''"
    unfolding d_def using cp by (rule customProperties_before_codedeploy)
  have nn: "\<not> is_nullish (get_prop d ''customProperties'')"
    using cp dcp by (simp add: truthy_not_nullish)
  have run: "apply_job_defaults pd jd jid =
      and_then (codedeploy_properties jd d) (\<lambda>r. Inr (default_source r))"
    using hp jd form by (simp add: apply_job_defaults_cases d_def has_properties_not_nullish)
  show ?thesis
  proof (cases "truthy (get_prop jd ''codedeploy'')")
    case True
    then show ?thesis
      using nn form
      by (simp add: run codedeploy_properties_some and_then_def default_source_def
          default_prop_other get_set_prop_same hd dcp)
  next
    case False
    then show ?thesis
      using form
      by (simp add: run codedeploy_properties_none and_then_def default_source_def
          default_prop_other dcp)
  qed
qed

text \<open>
  The amended claim C3 at a supplied mapping and job details without \<open>codedeploy\<close>, and
  at the same record with the event type \<^verbatim>\<open>{"toString": 1}\<close>, which has no string form.
\<close>

theorem supplied_customProperties_witness:
  "truthy (get_prop (JObj [(''customProperties'', JObj [(''team'', JStr ''payments'')])])
             ''customProperties'')
   \<and> \<not> is_nullish example_job_details
   \<and> (\<exists>pd'. apply_job_defaults (JObj [(''customProperties'', JObj [(''team'', JStr ''payments'')])])
                example_job_details (JStr ''job-1'') = Inr pd'
            \<and> get_prop pd' ''customProperties'' = JObj [(''team'', JStr ''payments'')])
   \<and> apply_job_defaults
        (JObj [(''customProperties'', JObj [(''team'', JStr ''payments'')]),
               (''eventType'', JObj [(''toString'', JNum 1)])])
        example_job_details (JStr ''job-1'') = Inl TypeError"
  using supplied_customProperties [of "JObj [(''customProperties'', JObj [(''team'', JStr ''payments'')])]"
      example_job_details "JStr ''job-1''"]
    supplied_customProperties [of "JObj [(''customProperties'', JObj [(''team'', JStr ''payments'')]),
               (''eventType'', JObj [(''toString'', JNum 1)])]"
      example_job_details "JStr ''job-1''"]
  by (simp add: example_job_details_def has_string_form_def has_key_def)

text \<open>
  Claim C3 as stated fails: with \<open>codedeploy\<close> in the job details, the supplied mapping
  \<^verbatim>\<open>{team: payments}\<close> leaves normalization with three more keys.
\<close>

theorem supplied_customProperties_changed:
  "get_prop (JObj [(''customProperties'', JObj [(''team'', JStr ''payments'')])])
     ''customProperties'' = JObj [(''team'', JStr ''payments'')]
   \<and> apply_job_defaults (JObj [(''customProperties'', JObj [(''team'', JStr ''payments'')])])
        example_deploy_details (JStr ''job-1'')
      = Inr (JObj
         [(''customProperties'',
           JObj [(''team'', JStr ''payments''),
                 (''CodeDeploy.DeploymentGroup'', JStr ''Production''),
                 (''CodeDeploy.Application'', JStr ''HelloWorld''),
                 (''CodeDeploy.DeploymentId'', JStr ''d-96V3B7QKP'')]),
          (''eventType'', JStr ''CUSTOM_DEPLOYMENT''),
          (''deploymentName'', JStr ''Checkout''),
          (''deploymentVersion'', JStr ''d-96V3B7QKP''),
          (''deploymentProject'', JStr ''Checkout''),
          (''source'', JStr ''AWS CodePipeline'')])
   \<and> get_prop (JObj
         [(''customProperties'',
           JObj [(''team'', JStr ''payments''),
                 (''CodeDeploy.DeploymentGroup'', JStr ''Production''),
                 (''CodeDeploy.Application'', JStr ''HelloWorld''),
                 (''CodeDeploy.DeploymentId'', JStr ''d-96V3B7QKP'')]),
          (''eventType'', JStr ''CUSTOM_DEPLOYMENT''),
          (''deploymentName'', JStr ''Checkout''),
          (''deploymentVersion'', JStr ''d-96V3B7QKP''),
          (''deploymentProject'', JStr ''Checkout''),
          (''source'', JStr ''AWS CodePipeline'')]) ''customProperties''
      = JObj [(''team'', JStr ''payments''),
              (''CodeDeploy.DeploymentGroup'', JStr ''Production''),
              (''CodeDeploy.Application'', JStr ''HelloWorld''),
              (''CodeDeploy.DeploymentId'', JStr ''d-96V3B7QKP'')]"
  by code_simp

text \<open>
  Claim C7. For a record (an object) without a \<open>deploymentVersion\<close> whose event type,
  explicit or defaulted by line 85, is \<^verbatim>\<open>CUSTOM_DEPLOYMENT\<close>, normalization completes,
  the event type is still \<^verbatim>\<open>CUSTOM_DEPLOYMENT\<close>, and the \<open>deploymentVersion\<close> is the
  \<open>deploymentId\<close> of the job details' \<open>codedeploy\<close> when they have one, and the
  CodePipeline job id otherwise.
\<close>

theorem default_deploymentVersion_value:
  assumes hp: "has_properties pd" and jd: "\<not> is_nullish jd"
    and dv: "\<not> truthy (get_prop pd ''deploymentVersion'')"
    and dep: "is_event_type (get_prop (default_eventType jd pd) ''eventType'') ''CUSTOM_DEPLOYMENT''"
  shows "\<exists>pd'. apply_job_defaults pd jd jid = Inr pd' \<and>
     is_event_type (get_prop pd' ''eventType'') ''CUSTOM_DEPLOYMENT'' \<and>
     get_prop pd' ''deploymentVersion'' =
        (if truthy (get_prop jd ''codedeploy'')
         then get_prop (get_prop jd ''codedeploy'') ''deploymentId''
         else jid)"
proof -
  have form: "has_string_form (get_prop pd ''eventType'')"
    using is_event_type_has_string_form [OF dep] by (simp add: default_eventType_string_form)
  from apply_job_defaults_returns [OF hp jd form] obtain pd' where
    run: "apply_job_defaults pd jd jid = Inr pd'" by blast
  define a where "a = default_eventType jd pd"
  define b where "b = annotation_branch jd a"
  define c where "c = deployment_branch jd jid b"
  define d where "d = default_customProperties jd c"
  from apply_job_defaults_Inr [OF run] obtain r where
    r: "codedeploy_properties jd d = Inr r" and pd': "pd' = default_source r"
    unfolding a_def b_def c_def d_def by blast
  have et: "get_prop pd' ''eventType'' = get_prop a ''eventType''"
    unfolding a_def by (rule eventType_after_defaults [OF run])
  have hb: "has_properties b"
    by (simp add: b_def a_def annotation_branch_def annotation_fields_def default_eventType_def
          comment_as_description_def has_properties_default_prop has_properties_set_prop hp)
  have bet: "get_prop b ''eventType'' = get_prop a ''eventType''"
    by (simp add: b_def eventType_before_codedeploy)
  have bdv: "get_prop b ''deploymentVersion'' = get_prop pd ''deploymentVersion''"
    by (simp add: b_def a_def annotation_branch_def annotation_fields_def default_eventType_def
          comment_as_description_other default_prop_other)
  have tail: "get_prop pd' ''deploymentVersion'' = get_prop c ''deploymentVersion''"
  proof -
    have "get_prop r ''deploymentVersion'' = get_prop d ''deploymentVersion''"
      by (rule codedeploy_properties_other [OF r]) simp
    then show ?thesis
      by (simp add: pd' d_def default_source_def default_customProperties_def default_prop_other)
  qed
  have dep': "is_event_type (get_prop a ''eventType'') ''CUSTOM_DEPLOYMENT''"
    using dep by (simp add: a_def)
  have "get_prop c ''deploymentVersion'' =
        get_prop (default_deploymentVersion jd jid (default_deploymentName jd b)) ''deploymentVersion''"
    using dep' bet by (simp add: c_def deployment_branch_def deployment_fields_def default_prop_other)
  also have "\<dots> = (if truthy (get_prop jd ''codedeploy'')
         then get_prop (get_prop jd ''codedeploy'') ''deploymentId''
         else jid)"
    unfolding default_deploymentVersion_def
    by (rule default_prop_absent)
       (simp_all add: default_deploymentName_def has_properties_default_prop hb
          default_prop_other bdv dv)
  finally have "get_prop c ''deploymentVersion'' =
        (if truthy (get_prop jd ''codedeploy'')
         then get_prop (get_prop jd ''codedeploy'') ''deploymentId''
         else jid)" .
  then show ?thesis using run et tail dep' by simp
qed

text \<open>
  Claim C7 at an explicit deployment event without \<open>codedeploy\<close> (the job id) and at an
  empty record with \<open>codedeploy\<close> (the deployment id).
\<close>

theorem default_deploymentVersion_value_witness:
  "(\<exists>pd'. apply_job_defaults (JObj [(''eventType'', JStr ''CUSTOM_DEPLOYMENT'')])
                example_job_details (JStr ''job-1'') = Inr pd'
            \<and> is_event_type (get_prop pd' ''eventType'') ''CUSTOM_DEPLOYMENT''
            \<and> get_prop pd' ''deploymentVersion'' = JStr ''job-1'')
   \<and> (\<exists>pd'. apply_job_defaults (JObj []) example_deploy_details (JStr ''job-1'') = Inr pd'
            \<and> is_event_type (get_prop pd' ''eventType'') ''CUSTOM_DEPLOYMENT''
            \<and> get_prop pd' ''deploymentVersion'' = JStr ''d-96V3B7QKP'')"
proof -
  have jd: "\<not> is_nullish example_job_details" by (simp add: example_job_details_def)
  have jd2: "\<not> is_nullish example_deploy_details" by (simp add: example_deploy_details_def)
  have cd2: "get_prop example_deploy_details ''codedeploy'' =
      JObj [(''deploymentId'', JStr ''d-96V3B7QKP''), (''deploymentGroup'', JStr ''Production''),
            (''application'', JStr ''HelloWorld'')]"
    by (simp add: example_deploy_details_def)
  have cd: "\<not> truthy (get_prop example_job_details ''codedeploy'')"
    by (simp add: example_job_details_def)
  have dep: "is_event_type (get_prop (default_eventType example_job_details
        (JObj [(''eventType'', JStr ''CUSTOM_DEPLOYMENT'')])) ''eventType'') ''CUSTOM_DEPLOYMENT''"
    by code_simp
  have dep2: "is_event_type (get_prop (default_eventType example_deploy_details (JObj []))
        ''eventType'') ''CUSTOM_DEPLOYMENT''"
    by code_simp
  show ?thesis
    using default_deploymentVersion_value [of "JObj [(''eventType'', JStr ''CUSTOM_DEPLOYMENT'')]"
      example_job_details "JStr ''job-1''"]
      default_deploymentVersion_value [of "JObj []" example_deploy_details "JStr ''job-1''"]
      jd jd2 dep dep2
    by (simp add: cd cd2)
qed

lemma split_two: "split_on CHR '','' ''Production,Deployed successfully'' = [''Production'', ''Deployed successfully'']"
  by code_simp

lemma parse_scenario:
  "parse_user_parameters env (JStr ''Production,Deployed successfully'') =
     Inr (JObj [(''environmentName'', JStr ''Production''),
                (''userComment'', JStr ''Deployed successfully'')], JNull)"
  by (simp add: parse_user_parameters_def split_two starts_with_def segment_def)

text \<open>
  Claim C9. With the \<^verbatim>\<open>UserParameters\<close> \<^verbatim>\<open>Production,Deployed successfully\<close> and job
  details without \<open>codedeploy\<close>, the normalized record has the event type
  \<^verbatim>\<open>CUSTOM_ANNOTATION\<close>, the description \<^verbatim>\<open>Deployed successfully\<close> and the pipeline
  name as its annotation type.
\<close>

theorem production_comment_scenario:
  assumes jd: "\<not> is_nullish jd" and cd: "\<not> truthy (get_prop jd ''codedeploy'')"
  shows "\<exists>pd'. normalized_record env (JStr ''Production,Deployed successfully'') jd jid = Inr pd'
     \<and> get_prop pd' ''eventType'' = JStr ''CUSTOM_ANNOTATION''
     \<and> get_prop pd' ''annotationDescription'' = JStr ''Deployed successfully''
     \<and> get_prop pd' ''annotationType'' = get_prop jd ''pipelineName''"
proof -
  have "normalized_record env (JStr ''Production,Deployed successfully'') jd jid =
    Inr (JObj [(''environmentName'', JStr ''Production''),
               (''userComment'', JStr ''Deployed successfully''),
               (''eventType'', JStr ''CUSTOM_ANNOTATION''),
               (''annotationType'', get_prop jd ''pipelineName''),
               (''annotationDescription'', JStr ''Deployed successfully''),
               (''customProperties'',
                  JObj [(''PipelineName'', get_prop jd ''pipelineName''),
                        (''PipelineStage'', get_prop jd ''stage''),
                        (''PipelineAction'', get_prop jd ''action'')]),
               (''source'', JStr ''AWS CodePipeline'')])"
    using jd cd
    by (simp add: normalized_record_def parse_scenario and_then_def apply_job_defaults_def
          default_eventType_def annotation_defaults_def annotation_fields_def
          deployment_defaults_def default_customProperties_def codedeploy_properties_def default_source_def
          default_prop_def comment_as_description_def)
  then show ?thesis by simp
qed

text \<open>
  Claim C9 at the example job details, whose pipeline is \<^verbatim>\<open>Checkout\<close>.
\<close>

theorem production_comment_scenario_witness:
  "\<not> is_nullish example_job_details \<and> \<not> truthy (get_prop example_job_details ''codedeploy'')
   \<and> (\<exists>pd'. normalized_record example_env (JStr ''Production,Deployed successfully'')
               example_job_details (JStr ''job-1'') = Inr pd'
     \<and> get_prop pd' ''eventType'' = JStr ''CUSTOM_ANNOTATION''
     \<and> get_prop pd' ''annotationDescription'' = JStr ''Deployed successfully''
     \<and> get_prop pd' ''annotationType'' = JStr ''Checkout'')"
  using production_comment_scenario [of example_job_details example_env "JStr ''job-1''"]
  by (simp add: example_job_details_def)

lemma split_url: "split_on CHR '','' ''Production,http://example.com/monspec.json'' = [''Production'', ''http://example.com/monspec.json'']"
  by code_simp

text \<open>
  Claim C4 at \<^verbatim>\<open>Production,http://example.com/monspec.json\<close>: the second segment is
  captured as \<open>monspecurl\<close> and no \<open>userComment\<close> is recorded, but the record is the
  empty object of line 73; the \<open>environmentName\<close> that line 70 stored is gone.
\<close>

theorem environment_name_dropped:
  "parse_user_parameters env (JStr ''Production,http://example.com/monspec.json'') =
     Inr (JObj [], JStr ''http://example.com/monspec.json'')
   \<and> get_prop (JObj []) ''environmentName'' = JUndefined
   \<and> get_prop (JObj []) ''userComment'' = JUndefined"
  by (simp add: parse_user_parameters_def split_url starts_with_def segment_def)

lemma split_on_nonempty: "split_on c s \<noteq> []"
  by (induction s) (auto split: list.splits)

text \<open>Every comma-separated string whose second segment starts with \<^verbatim>\<open>http\<close> parses
  to the empty record and that segment as \<open>monspecurl\<close>.\<close>

lemma url_segment:
  assumes "\<not> starts_with ''{'' s" and "split_on CHR '','' s = seg1 # seg2 # rest"
    and "starts_with ''http'' seg2"
  shows "parse_user_parameters env (JStr s) = Inr (JObj [], JStr seg2)"
  using assms by (simp add: parse_user_parameters_def segment_def)

text \<open>
  Claim C5 as stated fails: a record with the explicit \<open>annotationDescription\<close>
  \<^verbatim>\<open>explicit\<close> and a \<open>userComment\<close> leaves normalization with the comment as its
  description.
\<close>

theorem description_overwritten:
  "get_prop (JObj [(''userComment'', JStr ''from the pipeline''),
                   (''annotationDescription'', JStr ''explicit'')]) ''annotationDescription''
     = JStr ''explicit''
   \<and> apply_job_defaults (JObj [(''userComment'', JStr ''from the pipeline''),
                               (''annotationDescription'', JStr ''explicit'')])
        example_job_details (JStr ''job-1'')
      = Inr (JObj
       [(''userComment'', JStr ''from the pipeline''),
        (''annotationDescription'', JStr ''from the pipeline''),
        (''eventType'', JStr ''CUSTOM_ANNOTATION''),
        (''annotationType'', JStr ''Checkout''),
        (''customProperties'',
         JObj
          [(''PipelineName'', JStr ''Checkout''),
           (''PipelineStage'', JStr ''Deploy''),
           (''PipelineAction'', JStr ''Notify'')]),
        (''source'', JStr ''AWS CodePipeline'')])
   \<and> get_prop (JObj
       [(''userComment'', JStr ''from the pipeline''),
        (''annotationDescription'', JStr ''from the pipeline''),
        (''eventType'', JStr ''CUSTOM_ANNOTATION''),
        (''annotationType'', JStr ''Checkout''),
        (''customProperties'',
         JObj
          [(''PipelineName'', JStr ''Checkout''),
           (''PipelineStage'', JStr ''Deploy''),
           (''PipelineAction'', JStr ''Notify'')]),
        (''source'', JStr ''AWS CodePipeline'')]) ''annotationDescription''
     = JStr ''from the pipeline''"
  by code_simp

text \<open>
  The amended claim C5 at a record that sets \<open>source\<close>, sets \<open>annotationDescription\<close>
  without a \<open>userComment\<close>, and sets \<open>customProperties\<close>, with job details without
  \<open>codedeploy\<close>.
\<close>

theorem explicit_fields_kept_witness:
  "apply_job_defaults
     (JObj [(''source'', JStr ''Jenkins''), (''annotationDescription'', JStr ''explicit''),
            (''customProperties'', JObj [(''team'', JStr ''payments'')])])
     example_job_details (JStr ''job-1'')
   = Inr (JObj [(''source'', JStr ''Jenkins''), (''annotationDescription'', JStr ''explicit''),
                (''customProperties'', JObj [(''team'', JStr ''payments'')]),
                (''eventType'', JStr ''CUSTOM_ANNOTATION''),
                (''annotationType'', JStr ''Checkout'')])
   \<and> get_prop (JObj [(''source'', JStr ''Jenkins''), (''annotationDescription'', JStr ''explicit''),
                (''customProperties'', JObj [(''team'', JStr ''payments'')]),
                (''eventType'', JStr ''CUSTOM_ANNOTATION''),
                (''annotationType'', JStr ''Checkout'')]) ''source'' = JStr ''Jenkins''
   \<and> get_prop (JObj [(''source'', JStr ''Jenkins''), (''annotationDescription'', JStr ''explicit''),
                (''customProperties'', JObj [(''team'', JStr ''payments'')]),
                (''eventType'', JStr ''CUSTOM_ANNOTATION''),
                (''annotationType'', JStr ''Checkout'')]) ''annotationDescription'' = JStr ''explicit''
   \<and> get_prop (JObj [(''source'', JStr ''Jenkins''), (''annotationDescription'', JStr ''explicit''),
                (''customProperties'', JObj [(''team'', JStr ''payments'')]),
                (''eventType'', JStr ''CUSTOM_ANNOTATION''),
                (''annotationType'', JStr ''Checkout'')]) ''customProperties''
       = JObj [(''team'', JStr ''payments'')]"
proof -
  let ?pd = "JObj [(''source'', JStr ''Jenkins''), (''annotationDescription'', JStr ''explicit''),
            (''customProperties'', JObj [(''team'', JStr ''payments'')])]"
  let ?pd' = "JObj [(''source'', JStr ''Jenkins''), (''annotationDescription'', JStr ''explicit''),
                (''customProperties'', JObj [(''team'', JStr ''payments'')]),
                (''eventType'', JStr ''CUSTOM_ANNOTATION''),
                (''annotationType'', JStr ''Checkout'')]"
  have run: "apply_job_defaults ?pd example_job_details (JStr ''job-1'') = Inr ?pd'"
    by code_simp
  have cd: "\<not> truthy (get_prop example_job_details ''codedeploy'')"
    by (simp add: example_job_details_def)
  have "get_prop ?pd' ''source'' = get_prop ?pd ''source''"
    using explicit_fields_kept [OF run, of "''source''"] by simp
  moreover have "get_prop ?pd' ''annotationDescription'' = get_prop ?pd ''annotationDescription''"
    using explicit_fields_kept [OF run, of "''annotationDescription''"] by simp
  moreover have "get_prop ?pd' ''customProperties'' = get_prop ?pd ''customProperties''"
    using explicit_fields_kept [OF run, of "''customProperties''"] cd by simp
  ultimately show ?thesis using run by simp
qed

section \<open>The claims on the lookups\<close>

lemma pipeline_job_Inr:
  assumes "pipeline_job env job ctx = Inr r"
  shows "\<exists>pd url. r = after (GetJobDetails (get_prop job ''id''))
            (getJobDetails_callback env job pd url (get_prop job ''id'') ctx
               (fst (getJobDetails env (get_prop job ''id'')))
               (snd (getJobDetails env (get_prop job ''id''))))"
  using assms
  by (auto simp: pipeline_job_def Let_def and_then_def split_beta split: sum.splits)

lemma getJobDetails_callback_lookups:
  assumes "is_lookup e"
    and "e \<in> set (fst (getJobDetails_callback env job pd0 url jid ctx None jd))"
  shows "\<exists>pd a c. e = DownloadFile a c url \<and>
     getJobDetails_callback env job pd0 url jid ctx None jd =
       after (DownloadFile a c url)
         (downloadFile_callback env job pd jid ctx
            (fst (downloadFile env a c url)) (snd (downloadFile env a c url)))"
proof (cases "apply_job_defaults pd0 jd jid")
  case (Inl x)
  with assms show ?thesis by (simp add: getJobDetails_callback_def)
next
  case (Inr pd)
  let ?ia = "get_prop (get_prop job ''data'') ''inputArtifacts''"
  show ?thesis
  proof (cases "truthy ?ia \<and> truthy (index0 ?ia)")
    case False
    then have "getJobDetails_callback env job pd0 url jid ctx None jd =
        uncaught (postToApi env pd jid ctx)"
      using Inr by (auto simp: getJobDetails_callback_def Let_def)
    with assms show ?thesis
      using not_lookup_member [OF postToApi_no_lookup, of e env pd jid ctx] by simp
  next
    case True
    let ?c = "get_prop (get_prop job ''data'') ''artifactCredentials''"
    have cb: "getJobDetails_callback env job pd0 url jid ctx None jd =
        after (DownloadFile (index0 ?ia) ?c url)
          (downloadFile_callback env job pd jid ctx
            (fst (downloadFile env (index0 ?ia) ?c url)) (snd (downloadFile env (index0 ?ia) ?c url)))"
      using Inr True by (simp add: getJobDetails_callback_def Let_def split_beta)
    have "e = DownloadFile (index0 ?ia) ?c url"
      using assms
        not_lookup_member [OF downloadFile_callback_no_lookup, of e env job pd jid ctx
          "fst (downloadFile env (index0 ?ia) ?c url)" "snd (downloadFile env (index0 ?ia) ?c url)"]
      by (auto simp: cb after_def)
    with cb show ?thesis by blast
  qed
qed

lemma handler_not_pipeline:
  assumes "dtApiInit env \<noteq> None \<or> is_nullish event \<or> \<not> truthy (get_prop event ''CodePipeline.job'')"
  shows "filter is_lookup (fst (handler env event ctx)) = []"
proof -
  have direct: "filter is_lookup (fst (case postToApi env pd JNull ctx of
             Inl e \<Rightarrow> catch JNull ctx e | Inr done \<Rightarrow> done)) = []" for pd
    by (cases "postToApi env pd JNull ctx")
       (simp_all add: catch_no_lookup postToApi_Inr_no_lookup)
  have sns: "filter is_lookup (fst (case sns_notification env r0 of
                Inl e \<Rightarrow> catch JNull ctx e | Inr u \<Rightarrow> ([], None))) = []" for r0
    by (cases "sns_notification env r0") (simp_all add: catch_no_lookup)
  show ?thesis
    using assms unfolding handler_def Let_def
    by (auto simp: catch_no_lookup direct sns simp del: filter.simps)
qed

lemma handler_pipeline:
  assumes "dtApiInit env = None" "\<not> is_nullish event" "truthy (get_prop event ''CodePipeline.job'')"
  shows "handler env event ctx =
    (case pipeline_job env (get_prop event ''CodePipeline.job'') ctx of
       Inl e \<Rightarrow> catch (get_prop (get_prop event ''CodePipeline.job'') ''id'') ctx e
     | Inr done \<Rightarrow> done)"
  using assms by (simp add: handler_def Let_def)

text \<open>
  Claim C8. In an invocation that calls \<^verbatim>\<open>getJobDetails\<close> and gets an error, the
  handler's only further effect is the failure passed to the Lambda callback. In an
  invocation that calls \<^verbatim>\<open>downloadFile\<close> and gets an error, the only further effect is
  \<^verbatim>\<open>putJobFailure\<close> with that error. In neither is there a call of the monitoring API.
\<close>

theorem lookup_failure_aborts:
  "(GetJobDetails jobId \<in> set (fst (handler env event context))
      \<and> fst (getJobDetails env jobId) = Some lookup_error \<longrightarrow>
    handler env event context =
      ([GetJobDetails jobId,
        Callback (Val (JStr (''Cant retrieve job details from CodePipeline: ''
                               @ failure_text lookup_error)))],
       None))
   \<and> (DownloadFile artifact credentials url \<in> set (fst (handler env event context))
      \<and> fst (downloadFile env artifact credentials url) = Some download_error \<longrightarrow>
    handler env event context =
      ([GetJobDetails (get_prop (get_prop event ''CodePipeline.job'') ''id''),
        DownloadFile artifact credentials url,
        PutJobFailure (Failed download_error)
          (get_prop (get_prop event ''CodePipeline.job'') ''id'') (Some context)],
       None))"
proof (cases "dtApiInit env \<noteq> None \<or> is_nullish event \<or> \<not> truthy (get_prop event ''CodePipeline.job'')")
  case True
  then have none: "filter is_lookup (fst (handler env event context)) = []"
    by (rule handler_not_pipeline)
  show ?thesis
    using not_lookup_member [OF none, of "GetJobDetails jobId"]
      not_lookup_member [OF none, of "DownloadFile artifact credentials url"]
    by simp
next
  case False
  let ?job = "get_prop event ''CodePipeline.job''"
  let ?jid = "get_prop ?job ''id''"
  have h: "handler env event context =
    (case pipeline_job env ?job context of Inl e \<Rightarrow> catch ?jid context e | Inr done \<Rightarrow> done)"
    using False by (simp add: handler_pipeline)
  show ?thesis
  proof (cases "pipeline_job env ?job context")
    case (Inl e)
    then have none: "filter is_lookup (fst (handler env event context)) = []"
      by (simp add: h catch_no_lookup)
    show ?thesis
      using not_lookup_member [OF none, of "GetJobDetails jobId"]
        not_lookup_member [OF none, of "DownloadFile artifact credentials url"]
      by simp
  next
    case (Inr r)
    from pipeline_job_Inr [OF Inr] obtain pd u where
      r: "r = after (GetJobDetails ?jid)
            (getJobDetails_callback env ?job pd u ?jid context
               (fst (getJobDetails env ?jid)) (snd (getJobDetails env ?jid)))"
      by blast
    let ?cb = "getJobDetails_callback env ?job pd u ?jid context
               (fst (getJobDetails env ?jid)) (snd (getJobDetails env ?jid))"
    have hr: "handler env event context = after (GetJobDetails ?jid) ?cb"
      by (simp add: h Inr r)
    show ?thesis
    proof (cases "fst (getJobDetails env ?jid)")
      case (Some failed)
      have cb: "getJobDetails_callback env ?job pd u ?jid context (Some failed)
                  (snd (getJobDetails env ?jid)) =
          ([Callback (Val (JStr (''Cant retrieve job details from CodePipeline: ''
                               @ failure_text failed)))], None)"
        by (rule getJobDetails_callback_error)
      show ?thesis by (auto simp: hr Some cb after_def)
    next
      case None
      have lookups: "\<exists>pd' a c. e = DownloadFile a c u \<and>
          ?cb = after (DownloadFile a c u)
            (downloadFile_callback env ?job pd' ?jid context
              (fst (downloadFile env a c u)) (snd (downloadFile env a c u)))"
        if "is_lookup e" and "e \<in> set (fst ?cb)" for e
        using that getJobDetails_callback_lookups [of e env "?job" pd u "?jid" "context"
            "snd (getJobDetails env ?jid)"]
        by (simp add: None)
      have first: "jobId = ?jid" if "GetJobDetails jobId \<in> set (fst (handler env event context))"
        using that lookups [of "GetJobDetails jobId"] by (auto simp: hr after_def)
      have second: "handler env event context =
          ([GetJobDetails ?jid, DownloadFile artifact credentials url,
            PutJobFailure (Failed download_error) ?jid (Some context)],
           None)"
        if m: "DownloadFile artifact credentials url \<in> set (fst (handler env event context))"
          and err: "fst (downloadFile env artifact credentials url) = Some download_error"
      proof -
        have "DownloadFile artifact credentials url \<in> set (fst ?cb)"
          using m by (simp add: hr after_def)
        from lookups [OF _ this] obtain pd' a c where
          e: "DownloadFile artifact credentials url = DownloadFile a c u"
          and cb: "?cb = after (DownloadFile a c u)
            (downloadFile_callback env ?job pd' ?jid context
              (fst (downloadFile env a c u)) (snd (downloadFile env a c u)))"
          by auto
        from e have eq: "a = artifact" "c = credentials" "u = url" by simp_all
        show ?thesis
          using err hr cb unfolding eq
          by (simp add: after_def downloadFile_callback_error)
      qed
      show ?thesis using first second None by auto
    qed
  qed
qed

lemma example_job_reaches_lookup:
  "pipeline_job env (get_prop (example_job extra) ''CodePipeline.job'') LambdaContext =
     Inr (after (GetJobDetails (JStr ''job-1''))
            (getJobDetails_callback env (get_prop (example_job extra) ''CodePipeline.job'')
               (JObj [(''environmentName'', JStr ''Production''),
                      (''userComment'', JStr ''Deployed successfully'')])
               JNull (JStr ''job-1'') LambdaContext
               (fst (getJobDetails env (JStr ''job-1'')))
               (snd (getJobDetails env (JStr ''job-1'')))))"
  by (simp add: pipeline_job_def example_job_def js_get_def and_then_def parse_scenario
        split_beta Let_def)

lemma example_job_handler:
  "dtApiInit env = None \<Longrightarrow>
   handler env (example_job extra) LambdaContext =
     after (GetJobDetails (JStr ''job-1''))
            (getJobDetails_callback env (get_prop (example_job extra) ''CodePipeline.job'')
               (JObj [(''environmentName'', JStr ''Production''),
                      (''userComment'', JStr ''Deployed successfully'')])
               JNull (JStr ''job-1'') LambdaContext
               (fst (getJobDetails env (JStr ''job-1'')))
               (snd (getJobDetails env (JStr ''job-1''))))"
  using example_job_reaches_lookup [of env extra]
  by (simp add: handler_def Let_def) (simp add: example_job_def)

text \<open>
  Claim C8 at a job whose \<^verbatim>\<open>getJobDetails\<close> fails, and at a job with an input
  artifact whose \<^verbatim>\<open>downloadFile\<close> fails.
\<close>

theorem lookup_failure_aborts_witness:
  "handler failing_lookup_env (example_job []) LambdaContext =
     ([GetJobDetails (JStr ''job-1''),
       Callback (Val (JStr
         ''Cant retrieve job details from CodePipeline: ThrottlingException: Rate exceeded''))],
      None)
   \<and> fst (getJobDetails failing_lookup_env (JStr ''job-1''))
       = Some (Failure ''ThrottlingException: Rate exceeded'')
   \<and> handler example_env
        (example_job [(''inputArtifacts'', JArr [JObj [(''name'', JStr ''monspec'')]] [])])
        LambdaContext =
     ([GetJobDetails (JStr ''job-1''),
       DownloadFile (JObj [(''name'', JStr ''monspec'')]) JUndefined JNull,
       PutJobFailure (Failed (Failure ''AccessDenied: Access Denied'')) (JStr ''job-1'')
         (Some LambdaContext)], None)
   \<and> fst (downloadFile example_env (JObj [(''name'', JStr ''monspec'')]) JUndefined JNull)
       = Some (Failure ''AccessDenied: Access Denied'')"
proof -
  let ?artifacts = "[(''inputArtifacts'', JArr [JObj [(''name'', JStr ''monspec'')]] [])]"
  have err1: "fst (getJobDetails failing_lookup_env (JStr ''job-1''))
       = Some (Failure ''ThrottlingException: Rate exceeded'')"
    and init1: "dtApiInit failing_lookup_env = None"
    by (simp_all add: failing_lookup_env_def example_env_def)
  have m1: "GetJobDetails (JStr ''job-1'')
      \<in> set (fst (handler failing_lookup_env (example_job []) LambdaContext))"
    by (simp add: example_job_handler init1 after_def)
  have first: "handler failing_lookup_env (example_job []) LambdaContext =
     ([GetJobDetails (JStr ''job-1''),
       Callback (Val (JStr
         ''Cant retrieve job details from CodePipeline: ThrottlingException: Rate exceeded''))],
      None)"
    using lookup_failure_aborts [of "JStr ''job-1''" failing_lookup_env "example_job []"
        LambdaContext "Failure ''ThrottlingException: Rate exceeded''"] m1 err1
    by simp
  have err2: "fst (downloadFile example_env (JObj [(''name'', JStr ''monspec'')]) JUndefined JNull)
       = Some (Failure ''AccessDenied: Access Denied'')"
    and init2: "dtApiInit example_env = None"
    and jd: "getJobDetails example_env (JStr ''job-1'') = (None, example_job_details)"
    by (simp_all add: example_env_def)
  have nn: "\<not> is_nullish example_job_details" by (simp add: example_job_details_def)
  have hp: "has_properties (JObj [(''environmentName'', JStr ''Production''),
                      (''userComment'', JStr ''Deployed successfully'')])" by simp
  have form: "has_string_form (get_prop (JObj [(''environmentName'', JStr ''Production''),
                      (''userComment'', JStr ''Deployed successfully'')]) ''eventType'')"
    by (simp add: has_string_form_def)
  from apply_job_defaults_returns [OF hp nn form] obtain pd where
    pd: "apply_job_defaults (JObj [(''environmentName'', JStr ''Production''),
                      (''userComment'', JStr ''Deployed successfully'')])
           example_job_details (JStr ''job-1'') = Inr pd" by blast
  have m2: "DownloadFile (JObj [(''name'', JStr ''monspec'')]) JUndefined JNull
      \<in> set (fst (handler example_env (example_job ?artifacts) LambdaContext))"
    by (simp add: example_job_handler init2 after_def jd getJobDetails_callback_def pd Let_def
          split_beta)
       (simp add: example_job_def)
  have job: "get_prop (get_prop (example_job ?artifacts) ''CodePipeline.job'') ''id'' = JStr ''job-1''"
    by (simp add: example_job_def)
  have second: "handler example_env (example_job ?artifacts) LambdaContext =
     ([GetJobDetails (JStr ''job-1''),
       DownloadFile (JObj [(''name'', JStr ''monspec'')]) JUndefined JNull,
       PutJobFailure (Failed (Failure ''AccessDenied: Access Denied'')) (JStr ''job-1'')
         (Some LambdaContext)], None)"
    using lookup_failure_aborts [of _ example_env "example_job ?artifacts" LambdaContext _
        "JObj [(''name'', JStr ''monspec'')]" JUndefined JNull
        "Failure ''AccessDenied: Access Denied''"] m2 err2
    by (simp add: job)
  show ?thesis using first second err1 err2 by simp
qed

section \<open>The claims on submission\<close>

text \<open>With a job id, the first missing field's message goes to \<^verbatim>\<open>putJobFailure\<close>
  (without a context), nothing else happens, and \<open>postToApi\<close> returns.\<close>

lemma pipeline_validation_failure:
  assumes "\<not> is_nullish postedData"
    and "first_missing (global_defaults env postedData) = Some field"
    and "truthy codePipelineJobId"
  shows "postToApi env postedData codePipelineJobId context =
     Inr ([PutJobFailure (Val (JStr (field @ '' missing''))) codePipelineJobId None], None)"
  using assms by (simp add: postToApi_missing reportError_def returned_def)

text \<open>A direct call whose record lacks a mandatory field: the \<open>TypeError\<close> of
  \<^verbatim>\<open>reportError\<close> is what the handler's \<^verbatim>\<open>catch\<close> reports, whichever field is missing.\<close>

lemma direct_call_validation_failure:
  assumes init: "dtApiInit env = None" and event: "\<not> is_nullish event"
    and no_job: "\<not> truthy (get_prop event ''CodePipeline.job'')"
    and no_records: "\<not> truthy (get_prop event ''Records'')"
    and missing: "first_missing (global_defaults env
        (if truthy (get_prop event ''eventBody'') then get_prop event ''eventBody'' else event))
        = Some field"
  shows "handler env event context = ([ContextFail (Exc TypeError)], None)"
proof -
  let ?pd = "if truthy (get_prop event ''eventBody'') then get_prop event ''eventBody'' else event"
  have nn: "\<not> is_nullish ?pd" using event by (simp add: truthy_not_nullish)
  have "postToApi env ?pd JNull context = Inl TypeError"
    using nn missing by (simp add: postToApi_missing reportError_def returned_def)
  then show ?thesis
    using init event no_job no_records
    by (simp add: handler_def Let_def catch_def reportError_def returned_def uncaught_def)
qed

text \<open>When no mandatory field is missing, and the event type, the tenant URL and the
  token have a string form, the event is posted.\<close>

lemma complete_record_posted:
  assumes "\<not> is_nullish postedData" and "first_missing (global_defaults env postedData) = None"
    and "has_string_form (get_prop (global_defaults env postedData) ''eventType'')"
    and "js_to_string (get_prop (global_defaults env postedData) ''dtTenantURL'') = Inr tenant"
    and "js_to_string (get_prop (global_defaults env postedData) ''dtApiToken'') = Inr logged"
  shows "\<exists>event rest. postToApi env postedData jid context =
     Inr (ApiPost (tenant @ ''/api/v1/events'')
            (get_prop (global_defaults env postedData) ''dtApiToken'') event # fst rest, snd rest)"
  using assms
  by (simp add: postToApi_complete submit_def and_then_def Let_def split_beta after_def)

text \<open>When no mandatory field is missing and one of the three has no string form, line
  182, line 190 or line 208 throws.\<close>

lemma complete_record_throws:
  assumes "\<not> is_nullish postedData" and "first_missing (global_defaults env postedData) = None"
    and "\<not> has_string_form (get_prop (global_defaults env postedData) ''eventType'')
         \<or> \<not> has_string_form (get_prop (global_defaults env postedData) ''dtTenantURL'')
         \<or> \<not> has_string_form (get_prop (global_defaults env postedData) ''dtApiToken'')"
  shows "postToApi env postedData jid context = Inl TypeError"
proof (cases "has_string_form (get_prop (global_defaults env postedData) ''eventType'')")
  case False
  with assms show ?thesis by (simp add: postToApi_complete)
next
  case True
  let ?q = "global_defaults env postedData"
  have "submit env ?q jid context = Inl TypeError"
  proof (cases "js_to_string (get_prop ?q ''dtTenantURL'')")
    case (Inl e)
    then show ?thesis
      using js_to_string_error [OF Inl] by (simp add: submit_def and_then_def)
  next
    case (Inr tenant)
    then have "has_string_form (get_prop ?q ''dtTenantURL'')"
      by (simp add: has_string_form_def)
    with assms True have "js_to_string (get_prop ?q ''dtApiToken'') = Inl TypeError"
      using js_to_string_cases [of "get_prop ?q ''dtApiToken''"] by simp
    with Inr show ?thesis by (simp add: submit_def and_then_def Let_def)
  qed
  with assms True show ?thesis by (simp add: postToApi_complete)
qed

lemma reportError_without_job:
  "\<not> truthy jid \<Longrightarrow> reportError m jid None = Inl TypeError"
  by (simp add: reportError_def)

text \<open>
  Claim C10. Whatever mandatory field is the first one missing, \<open>postToApi\<close> is the call
  of \<^verbatim>\<open>reportError\<close> with that field's message, the job id and no context. Without a
  job id this call throws a \<open>TypeError\<close> before anything is reported: no effect, so no
  \<^verbatim>\<open>context.fail\<close> with the validation message.
\<close>

theorem validation_failure_without_context:
  assumes "\<not> is_nullish postedData"
    and "first_missing (global_defaults env postedData) = Some field"
  shows "postToApi env postedData codePipelineJobId context =
           returned (reportError (Val (JStr (field @ '' missing''))) codePipelineJobId None)
     \<and> (\<not> truthy codePipelineJobId \<longrightarrow>
           postToApi env postedData codePipelineJobId context = Inl TypeError)"
  using assms by (simp add: postToApi_missing reportError_without_job returned_def)

lemma unconfigured_empty: "first_missing (global_defaults unconfigured_env (JObj [])) = Some ''dtApiToken''"
  by (simp add: first_missing_chain global_defaults_def unconfigured_env_def example_env_def)

text \<open>
  Claim C10 at a direct call with an empty record and no configured token.
\<close>

theorem validation_failure_without_context_witness:
  "\<not> is_nullish (JObj [])
   \<and> first_missing (global_defaults unconfigured_env (JObj [])) = Some ''dtApiToken''
   \<and> \<not> truthy JNull
   \<and> postToApi unconfigured_env (JObj []) JNull LambdaContext = Inl TypeError"
  using validation_failure_without_context [of "JObj []" unconfigured_env "''dtApiToken''" JNull LambdaContext]
  by (simp add: unconfigured_empty reportError_def returned_def)

lemmas evaluation =
  handler_def postToApi_def submit_def global_defaults_def build_event_def properties_def
  copy_property_def dtApiPost_callback_def reported_success_def no_matching_entities_def
  submission_failed_def no_match_message_def reportError_def reportSuccess_def returned_def
  uncaught_def after_def catch_def starts_with_def number_to_string_def digits10.simps
  js_get_def and_then_def has_key_def

text \<open>
  Claim C1 at a direct call with the empty record and nothing configured: the token is
  the first missing field, but \<^verbatim>\<open>reportError\<close> gets no context and throws, the
  handler's \<^verbatim>\<open>catch\<close> reports that \<open>TypeError\<close>, and the message
  \<^verbatim>\<open>dtApiToken missing\<close> reaches nobody. No call of the monitoring API is made.
\<close>

theorem named_error_lost:
  "first_missing (global_defaults unconfigured_env (JObj [])) = Some ''dtApiToken''
   \<and> handler unconfigured_env (JObj []) LambdaContext = ([ContextFail (Exc TypeError)], None)
   \<and> ContextFail (Val (JStr ''dtApiToken missing''))
        \<notin> set (fst (handler unconfigured_env (JObj []) LambdaContext))"
  by (simp add: unconfigured_empty) (simp add: evaluation example_env_def unconfigured_env_def)

text \<open>
  Claim C2, as amended. Status 200 is the success outcome. Status 400 with a body that
  starts with \<^verbatim>\<open>{\<close> and parses to a value whose \<open>error\<close> has a \<open>message\<close> containing
  \<^verbatim>\<open>No MEIdentifier do match\<close> is the no-matching-entities outcome. The generic failure
  carrying the raw body is the outcome of every status other than 200 and 400, of
  status 400 with a body that does not start with \<^verbatim>\<open>{\<close>, and of status 400 with a body
  that starts with \<^verbatim>\<open>{\<close> and parses to a value other than \<^verbatim>\<open>null\<close> that has no \<open>error\<close>
  or whose \<open>error\<close> has a \<open>message\<close> that can be searched (a string, or an array) and
  does not contain the text.
\<close>

theorem response_classification:
  "(statuscode = 200 \<longrightarrow>
      dtApiPost_callback env postedData jid ctx statuscode response =
        reported_success jid ctx)
   \<and> (statuscode = 400 \<and> starts_with ''{'' response
        \<and> JSON_parse env response = Inr responseObject
        \<and> truthy (get_prop responseObject ''error'')
        \<and> js_includes (get_prop (get_prop responseObject ''error'') ''message'')
             ''No MEIdentifier do match'' = Inr True \<longrightarrow>
      dtApiPost_callback env postedData jid ctx statuscode response =
        no_matching_entities env postedData jid ctx)
   \<and> (statuscode \<noteq> 200 \<and> (statuscode \<noteq> 400 \<or> \<not> starts_with ''{'' response) \<longrightarrow>
      dtApiPost_callback env postedData jid ctx statuscode response =
        submission_failed response jid ctx)
   \<and> (statuscode = 400 \<and> starts_with ''{'' response
        \<and> JSON_parse env response = Inr responseObject \<and> \<not> is_nullish responseObject
        \<and> (\<not> truthy (get_prop responseObject ''error'')
            \<or> js_includes (get_prop (get_prop responseObject ''error'') ''message'')
                 ''No MEIdentifier do match'' = Inr False) \<longrightarrow>
      dtApiPost_callback env postedData jid ctx statuscode response =
        submission_failed response jid ctx)"
proof -
  have nn: "\<not> is_nullish responseObject" if "truthy (get_prop responseObject ''error'')"
    using that by (cases responseObject) simp_all
  show ?thesis
    by (auto simp: dtApiPost_callback_def js_get_def nn)
qed

text \<open>
  The remaining responses, all of status 400 with a body that starts with \<^verbatim>\<open>{\<close>: a body
  that is not JSON, one that parses to \<^verbatim>\<open>null\<close>, and one whose \<open>error\<close> has a \<open>message\<close>
  without the method \<^verbatim>\<open>includes\<close> (as in \<^verbatim>\<open>{"error":{"code":400}}\<close>). The callback
  throws and reports nothing.
\<close>

lemma response_unreported:
  assumes "statuscode = 400" and "starts_with ''{'' response"
  shows "JSON_parse env response = Inl e \<Longrightarrow>
           dtApiPost_callback env postedData jid ctx statuscode response = ([], Some e)"
    and "JSON_parse env response = Inr responseObject \<Longrightarrow> is_nullish responseObject \<Longrightarrow>
           dtApiPost_callback env postedData jid ctx statuscode response = ([], Some TypeError)"
    and "JSON_parse env response = Inr responseObject \<Longrightarrow>
         truthy (get_prop responseObject ''error'') \<Longrightarrow>
         js_includes (get_prop (get_prop responseObject ''error'') ''message'')
           ''No MEIdentifier do match'' = Inl e \<Longrightarrow>
           dtApiPost_callback env postedData jid ctx statuscode response = ([], Some e)"
proof -
  have nn: "\<not> is_nullish responseObject" if "truthy (get_prop responseObject ''error'')"
    using that by (cases responseObject) simp_all
  show "JSON_parse env response = Inl e \<Longrightarrow>
           dtApiPost_callback env postedData jid ctx statuscode response = ([], Some e)"
    using assms by (simp add: dtApiPost_callback_def)
  show "JSON_parse env response = Inr responseObject \<Longrightarrow> is_nullish responseObject \<Longrightarrow>
           dtApiPost_callback env postedData jid ctx statuscode response = ([], Some TypeError)"
    using assms by (simp add: dtApiPost_callback_def js_get_def)
  show "JSON_parse env response = Inr responseObject \<Longrightarrow>
         truthy (get_prop responseObject ''error'') \<Longrightarrow>
         js_includes (get_prop (get_prop responseObject ''error'') ''message'')
           ''No MEIdentifier do match'' = Inl e \<Longrightarrow>
           dtApiPost_callback env postedData jid ctx statuscode response = ([], Some e)"
    using assms by (simp add: dtApiPost_callback_def js_get_def nn)
qed

text \<open>The body \<^verbatim>\<open>{"error":{"code":400}}\<close>: the \<open>message\<close> is \<^verbatim>\<open>undefined\<close>.\<close>

lemma error_without_message:
  "js_includes (get_prop (get_prop (JObj [(''error'', JObj [(''code'', JNum 400)])]) ''error'')
      ''message'') ''No MEIdentifier do match'' = Inl TypeError"
  by simp

lemma reportError_no_post:
  "reportError m jid c = Inr effs \<Longrightarrow> filter is_api_post effs = []"
  by (auto simp: reportError_def split: if_splits option.splits)

lemma reportSuccess_no_post:
  "reportSuccess m jid c = Inr effs \<Longrightarrow> filter is_api_post effs = []"
  by (auto simp: reportSuccess_def split: if_splits option.splits)

lemma reported_no_post:
  "(\<And>effs. r = Inr effs \<Longrightarrow> filter is_api_post effs = []) \<Longrightarrow>
   filter is_api_post (fst (uncaught (returned r))) = []"
  by (cases r) (simp_all add: uncaught_def returned_def)

lemma outcomes_no_post:
  "filter is_api_post (fst (reported_success jid ctx)) = []"
  "filter is_api_post (fst (no_matching_entities env pd jid ctx)) = []"
  "filter is_api_post (fst (submission_failed response jid ctx)) = []"
  unfolding reported_success_def no_matching_entities_def submission_failed_def
  by (rule reported_no_post, erule reportSuccess_no_post reportError_no_post)+

lemma dtApiPost_callback_no_post:
  "filter is_api_post (fst (dtApiPost_callback env pd jid ctx statuscode response)) = []"
  by (simp add: dtApiPost_callback_def outcomes_no_post split: sum.splits)

lemma not_post_member:
  "filter is_api_post effs = [] \<Longrightarrow> is_api_post e \<Longrightarrow> e \<notin> set effs"
  by (auto simp: filter_empty_conv)

text \<open>A missing field means no call of the monitoring API.\<close>

lemma missing_field_no_post:
  assumes "\<not> is_nullish postedData"
    and "first_missing (global_defaults env postedData) = Some field"
  shows "filter is_api_post (fst (uncaught (postToApi env postedData jid context))) = []"
  using assms by (simp add: postToApi_missing reported_no_post reportError_no_post)

lemma copy_property_other:
  "k' \<noteq> k \<Longrightarrow> get_prop (copy_property pd event k) k' = get_prop event k'"
  by (simp add: copy_property_def get_set_prop_other)

lemma copy_properties_other:
  "k' \<notin> set ks \<Longrightarrow> get_prop (foldl (copy_property pd) event ks) k' = get_prop event k'"
  by (induction ks arbitrary: event) (auto simp: copy_property_other)

lemma build_event_attachRules:
  "get_prop (build_event env pd) ''attachRules'' = get_prop pd ''attachRules''"
proof -
  have "''attachRules'' \<notin> set properties" by (simp add: properties_def)
  then show ?thesis by (simp add: build_event_def copy_properties_other)
qed

text \<open>
  Claim C6, as amended. Whenever \<open>postToApi\<close> calls the monitoring API, the record's
  \<open>attachRules\<close> is present (truthy) and is the \<open>attachRules\<close> of the posted event. It
  need not hold a rule: line 180 tests presence only.
\<close>

theorem posted_attachRules_present:
  assumes run: "postToApi env postedData jid context = Inr done"
    and post: "ApiPost url token event \<in> set (fst done)"
  shows "truthy (get_prop postedData ''attachRules'')
     \<and> get_prop event ''attachRules'' = get_prop postedData ''attachRules''"
proof -
  let ?q = "global_defaults env postedData"
  have nn: "\<not> is_nullish postedData" using run by (auto simp: postToApi_def)
  have ar: "get_prop ?q ''attachRules'' = get_prop postedData ''attachRules''"
    by (simp add: global_defaults_other)
  show ?thesis
  proof (cases "first_missing ?q")
    case (Some field)
    then have "postToApi env postedData jid context =
        returned (reportError (Val (JStr (field @ '' missing''))) jid None)"
      using nn by (simp add: postToApi_missing)
    with run have "filter is_api_post (fst done) = []"
      by (auto simp: returned_def split: sum.splits dest: reportError_no_post)
    from not_post_member [OF this, of "ApiPost url token event"] post show ?thesis by simp
  next
    case None
    then have "submit env ?q jid context = Inr done"
      using nn run by (simp add: postToApi_complete split: if_splits)
    from submit_Inr [OF this] obtain tenant statuscode response where
      d: "done = after (ApiPost (tenant @ ''/api/v1/events'') (get_prop ?q ''dtApiToken'')
                    (build_event env ?q))
              (dtApiPost_callback env ?q jid context statuscode response)"
      by blast
    have "event = build_event env ?q"
      using post
        not_post_member [OF dtApiPost_callback_no_post, of "ApiPost url token event" env "?q" jid
          "context" statuscode response]
      by (auto simp: d after_def)
    then show ?thesis
      using first_missing_None_attachRules [OF None] by (simp add: build_event_attachRules ar)
  qed
qed

lemma postToApi_example:
  "postToApi example_env (example_deployment (JObj a)) JNull LambdaContext =
     Inr ([ApiPost ''https://tenant.example.com/api/v1/events'' (JStr ''token-1'')
             (example_wire_event (JObj a)),
           ContextSucceed (Val (JStr ''Successfully sent event to Dynatrace''))], None)"
  by (simp add: evaluation example_env_def example_deployment_def example_wire_event_def)

text \<open>
  Claim C6 as stated fails: a deployment event whose \<open>attachRules\<close> is the empty object
  is posted to the monitoring API.
\<close>

theorem empty_attachRules_posted:
  "postToApi example_env (example_deployment (JObj [])) JNull LambdaContext =
     Inr ([ApiPost ''https://tenant.example.com/api/v1/events'' (JStr ''token-1'')
             (example_wire_event (JObj [])),
           ContextSucceed (Val (JStr ''Successfully sent event to Dynatrace''))], None)
   \<and> get_prop (example_wire_event (JObj [])) ''attachRules'' = JObj []"
  by (simp add: postToApi_example) (simp add: example_wire_event_def)

text \<open>
  The amended claim C6 at a deployment event with one tag rule.
\<close>

theorem posted_attachRules_present_witness:
  "postToApi example_env (example_deployment example_tag_rules) JNull LambdaContext =
     Inr ([ApiPost ''https://tenant.example.com/api/v1/events'' (JStr ''token-1'')
             (example_wire_event example_tag_rules),
           ContextSucceed (Val (JStr ''Successfully sent event to Dynatrace''))], None)
   \<and> truthy (get_prop (example_deployment example_tag_rules) ''attachRules'')
   \<and> get_prop (example_wire_event example_tag_rules) ''attachRules''
       = get_prop (example_deployment example_tag_rules) ''attachRules''"
proof -
  have run: "postToApi example_env (example_deployment example_tag_rules) JNull LambdaContext =
     Inr ([ApiPost ''https://tenant.example.com/api/v1/events'' (JStr ''token-1'')
             (example_wire_event example_tag_rules),
           ContextSucceed (Val (JStr ''Successfully sent event to Dynatrace''))], None)"
    unfolding example_tag_rules_def by (rule postToApi_example)
  show ?thesis
    using posted_attachRules_present [OF run,
        of "''https://tenant.example.com/api/v1/events''" "JStr ''token-1''"
           "example_wire_event example_tag_rules"]
    by (simp add: run)
qed

text \<open>
  Claim C2 as stated fails twice. Status 400 with the no-match body behind a space: the
  body parses to the error object whose message contains the text, but it does not
  start with \<^verbatim>\<open>{\<close>, so the outcome is the generic failure. Status 400 with the body
  \<^verbatim>\<open>{oops\<close>, which is not JSON: the callback ends in the \<open>SyntaxError\<close> of
  \<^verbatim>\<open>JSON.parse\<close> and no outcome is reported, so not the generic failure.
\<close>

theorem response_misclassified:
  "JSON_parse example_env ('' '' @ no_match_body)
     = Inr (JObj [(''error'', JObj [(''code'', JNum 400), (''message'', JStr no_match_text)])])
   \<and> js_includes (JStr no_match_text) ''No MEIdentifier do match'' = Inr True
   \<and> dtApiPost_callback example_env (JObj []) JNull LambdaContext 400 ('' '' @ no_match_body)
       = submission_failed ('' '' @ no_match_body) JNull LambdaContext
   \<and> submission_failed ('' '' @ no_match_body) JNull LambdaContext
       \<noteq> no_matching_entities example_env (JObj []) JNull LambdaContext
   \<and> JSON_parse example_env ''{oops'' = Inl SyntaxError
   \<and> dtApiPost_callback example_env (JObj []) JNull LambdaContext 400 ''{oops''
       = ([], Some SyntaxError)
   \<and> submission_failed ''{oops'' JNull LambdaContext
       = ([ContextFail (Val (JStr ''Failed to send event to Dynatrace: {oops''))], None)"
proof -
  have parse: "JSON_parse example_env ('' '' @ no_match_body)
     = Inr (JObj [(''error'', JObj [(''code'', JNum 400), (''message'', JStr no_match_text)])])"
    by (simp add: example_env_def)
  have found: "js_includes (JStr no_match_text) ''No MEIdentifier do match'' = Inr True"
    by (simp add: no_match_text_def starts_with_def)
  have generic: "dtApiPost_callback example_env (JObj []) JNull LambdaContext 400
      ('' '' @ no_match_body) = submission_failed ('' '' @ no_match_body) JNull LambdaContext"
    by (simp add: dtApiPost_callback_def starts_with_def)
  have differs: "submission_failed ('' '' @ no_match_body) JNull LambdaContext
       \<noteq> no_matching_entities example_env (JObj []) JNull LambdaContext"
    by (simp add: submission_failed_def no_matching_entities_def no_match_message_def
          reportError_def returned_def uncaught_def)
  have unparsable: "JSON_parse example_env ''{oops'' = Inl SyntaxError"
    by (simp add: example_env_def no_match_body_def quoted_def)
  have thrown: "dtApiPost_callback example_env (JObj []) JNull LambdaContext 400 ''{oops''
       = ([], Some SyntaxError)"
    by (simp add: dtApiPost_callback_def starts_with_def unparsable)
  have failed: "submission_failed ''{oops'' JNull LambdaContext
       = ([ContextFail (Val (JStr ''Failed to send event to Dynatrace: {oops''))], None)"
    by (simp add: submission_failed_def reportError_def returned_def uncaught_def)
  show ?thesis using parse found generic differs unparsable thrown failed by simp
qed

text \<open>
  The amended claim C2 at one response of each kind.
\<close>

theorem response_classification_witness:
  "dtApiPost_callback example_env (JObj []) JNull LambdaContext 200 ''{}''
     = ([ContextSucceed (Val (JStr ''Successfully sent event to Dynatrace''))], None)
   \<and> dtApiPost_callback example_env (JObj []) JNull LambdaContext 400 no_match_body
     = ([ContextFail (Val (JStr (no_match_message example_env (JObj []))))], None)
   \<and> dtApiPost_callback example_env (JObj []) JNull LambdaContext 503 ''Service Unavailable''
     = ([ContextFail (Val (JStr ''Failed to send event to Dynatrace: Service Unavailable''))], None)
   \<and> dtApiPost_callback example_env (JObj []) JNull LambdaContext 400 ''{}''
     = ([ContextFail (Val (JStr ''Failed to send event to Dynatrace: {}''))], None)"
proof -
  let ?error = "JObj [(''error'', JObj [(''code'', JNum 400), (''message'', JStr no_match_text)])]"
  have body: "starts_with ''{'' no_match_body"
    by (simp add: starts_with_def no_match_body_def)
  have parse: "JSON_parse example_env no_match_body = Inr ?error"
    by (simp add: example_env_def)
  have found: "str_includes no_match_text ''No MEIdentifier do match''"
    by (simp add: no_match_text_def starts_with_def)
  have empty: "JSON_parse example_env ''{}'' = Inr (JObj [])"
    by (simp add: example_env_def no_match_body_def quoted_def)
  have ok: "dtApiPost_callback example_env (JObj []) JNull LambdaContext 200 ''{}''
      = reported_success JNull LambdaContext"
    using response_classification [where statuscode = 200 and env = example_env
        and postedData = "JObj []" and jid = JNull and ctx = LambdaContext
        and response = "''{}''" and responseObject = JNull]
    by simp
  have no_match: "dtApiPost_callback example_env (JObj []) JNull LambdaContext 400 no_match_body
      = no_matching_entities example_env (JObj []) JNull LambdaContext"
    using response_classification [where statuscode = 400 and env = example_env
        and postedData = "JObj []" and jid = JNull and ctx = LambdaContext
        and response = no_match_body and responseObject = ?error]
    by (simp add: body parse found)
  have unavailable: "dtApiPost_callback example_env (JObj []) JNull LambdaContext 503
      ''Service Unavailable'' = submission_failed ''Service Unavailable'' JNull LambdaContext"
    using response_classification [where statuscode = 503 and env = example_env
        and postedData = "JObj []" and jid = JNull and ctx = LambdaContext
        and response = "''Service Unavailable''" and responseObject = JNull]
    by simp
  have other: "dtApiPost_callback example_env (JObj []) JNull LambdaContext 400 ''{}''
      = submission_failed ''{}'' JNull LambdaContext"
    using response_classification [where statuscode = 400 and env = example_env
        and postedData = "JObj []" and jid = JNull and ctx = LambdaContext
        and response = "''{}''" and responseObject = "JObj []"]
    by (simp add: empty starts_with_def)
  show ?thesis
    by (simp add: ok no_match unavailable other reported_success_def
          no_matching_entities_def submission_failed_def reportError_def reportSuccess_def
          returned_def uncaught_def)
qed

end
